theory Spec2Isabelle
  imports Main "HOL-Library.Sublist" "HOL-Library.Char_ord" "HOL-Library.List_Lexorder"
    "HOL-Library.Multiset"
begin

section \<open>Python values\<close>

text \<open>
  A Python \<open>str\<close> is modelled as a \<open>string\<close> whose characters are the code points
  0..255 (Latin-1), one \<open>char\<close> per code point; the multiplication sign of the
  source texts is code point 215. Strings with code points above 255 are outside the
  model. An \<open>int\<close> is Python's unbounded integer. An exception is a value of type
  \<open>error\<close>, and a function that may raise returns \<open>error + 'a\<close>. \<open>Unmodelled\<close> is no
  Python exception: it marks a value that has no counterpart in the types of the model.
\<close>

datatype error =
    RuntimeError
  | HTTPError
  | HTTPStatusError nat
  | JSONDecodeError
  | AttributeError
  | TypeError
  | ValueError
  | KeyError
  | FileNotFoundError
  | OSError
  | Unmodelled

abbreviation times_sign :: char where
  "times_sign \<equiv> CHR 0xD7"

abbreviation newline :: char where
  "newline \<equiv> CHR 0x0A"

text \<open>\<open>str.lower\<close> on code points 0..255: A-Z and the accented capitals 192..222
  (the multiplication sign 215 apart) move up by 32.\<close>

definition lower_char :: "char \<Rightarrow> char" where
  "lower_char c =
     (let n = (of_char c :: nat)
      in if (65 \<le> n \<and> n \<le> 90) \<or> (192 \<le> n \<and> n \<le> 222 \<and> n \<noteq> 215)
         then char_of (n + 32) else c)"

definition lower :: "string \<Rightarrow> string" where
  "lower s = map lower_char s"

text \<open>\<open>str.isspace\<close> on code points 0..255, and \<open>str.strip()\<close>.\<close>

definition is_space :: "char \<Rightarrow> bool" where
  "is_space c =
     (let n = (of_char c :: nat)
      in (9 \<le> n \<and> n \<le> 13) \<or> (28 \<le> n \<and> n \<le> 32) \<or> n = 133 \<or> n = 160)"

definition strip :: "string \<Rightarrow> string" where
  "strip s = rev (dropWhile is_space (rev (dropWhile is_space s)))"

text \<open>\<open>str(n)\<close> for an integer: decimal digits, a minus sign for a negative number.\<close>

definition digit_char :: "nat \<Rightarrow> char" where
  "digit_char d = char_of (48 + d)"

function digits :: "nat \<Rightarrow> string" where
  "digits n = (if n < 10 then [digit_char n] else digits (n div 10) @ [digit_char (n mod 10)])"
  by pat_completeness auto
termination
  by (relation "measure id") auto

declare digits.simps [simp del]

definition str_int :: "int \<Rightarrow> string" where
  "str_int i = (if i < 0 then CHR ''-'' # digits (nat (- i)) else digits (nat i))"

text \<open>\<open>a in b\<close> on strings is \<^const>\<open>sublist\<close>: \<open>a\<close> occurs in \<open>b\<close> as a contiguous run.\<close>

section \<open>content_generator.py\<close>

text \<open>A content dict has exactly the keys \<open>lesson\<close> and \<open>concept\<close>.\<close>

record content =
  lesson :: string
  concept :: string

text \<open>\<open>LOCAL_CONTENT\<close>: subject, then grade, then topic. The dicts are association lists
  in the order of the literal; a lookup is \<^const>\<open>map_of\<close>.\<close>

definition LOCAL_CONTENT :: "(string \<times> (int \<times> (string \<times> content) list) list) list" where
  "LOCAL_CONTENT =
    [(''Mathematics'',
       [(3,
          [(''Fractions'',
              \<lparr>lesson =
                 ''Fractions represent equal parts of a whole. When we write '' @
                 ''a fraction like 1/2, the number on top (the numerator) '' @
                 ''tells us how many parts we have and the number on the bottom '' @
                 ''(the denominator) tells us how many equal parts the whole is '' @
                 ''divided into.'',
               concept = ''Understanding halves, thirds, and quarters of shapes and groups.''\<rparr>),
           (''Multiplication'',
              \<lparr>lesson =
                 ''Multiplication is repeated addition. To find 3 '' @ [times_sign] @ '' 4, add 4 '' @
                 ''three times (4 + 4 + 4 = 12). Arrays and equal groups help '' @
                 ''us visualise multiplication problems.'',
               concept = ''Building fluency with times tables up to 5.''\<rparr>)]),
        (4,
          [(''Decimals'',
              \<lparr>lesson =
                 ''Decimals are another way to write fractions. 0.5 is the same '' @
                 ''as 1/2 because it represents 5 tenths. Each place to the '' @
                 ''right of the decimal point is worth ten times less than the '' @
                 ''place before it.'',
               concept = ''Linking tenths and hundredths to place value charts.''\<rparr>)])]),
     (''Science'',
       [(3,
          [(''Life Cycles'',
              \<lparr>lesson =
                 ''Plants and animals go through life cycles. A butterfly starts '' @
                 ''as an egg, becomes a caterpillar, forms a chrysalis, and '' @
                 ''emerges as an adult butterfly. Each stage has a special job.'',
               concept = ''Recognising patterns in living things.''\<rparr>)]),
        (4,
          [(''Energy'',
              \<lparr>lesson =
                 ''Energy is the ability to do work. It can take many forms '' @
                 ''such as light, heat, and movement. Energy can change from '' @
                 ''one form to another, like when electricity powers a lamp.'',
               concept = ''Observing energy transfers in everyday situations.''\<rparr>)])])]"

text \<open>\<open>d.get(k, {})\<close> on a dict of dicts.\<close>

definition get_or_empty :: "('k \<times> ('a \<times> 'b) list) list \<Rightarrow> 'k \<Rightarrow> ('a \<times> 'b) list" where
  "get_or_empty d k = (case map_of d k of None \<Rightarrow> [] | Some v \<Rightarrow> v)"

definition get_available_grades :: "int list" where
  "get_available_grades =
     sort (remdups (concat (map (\<lambda>(subject, grade_data). map fst grade_data) LOCAL_CONTENT)))"

definition get_subjects_for_grade :: "int \<Rightarrow> string list" where
  "get_subjects_for_grade grade =
     sort (map fst (filter (\<lambda>(subject, grade_data). grade \<in> fst ` set grade_data) LOCAL_CONTENT))"

definition get_topics :: "string \<Rightarrow> int \<Rightarrow> string list" where
  "get_topics subject grade =
     (let subject_data = get_or_empty LOCAL_CONTENT subject
      in sort (map fst (get_or_empty subject_data grade)))"

text \<open>\<open>_select_content\<close>: \<open>not content\<close> holds when the topic is missing (an empty content
  dict does not exist in the record type).\<close>

definition select_content :: "string \<Rightarrow> int \<Rightarrow> string \<Rightarrow> error + content" where
  "select_content subject grade topic =
     (let subject_data = get_or_empty LOCAL_CONTENT subject;
          grade_data = get_or_empty subject_data grade
      in case map_of grade_data topic of
           None \<Rightarrow> Inl KeyError
         | Some c \<Rightarrow> Inr c)"

definition generate_local_lesson :: "string \<Rightarrow> int \<Rightarrow> string \<Rightarrow> error + string" where
  "generate_local_lesson subject grade topic =
     (case select_content subject grade topic of
        Inl e \<Rightarrow> Inl e
      | Inr c \<Rightarrow> Inr (
          ''Lesson Topic: '' @ topic @ [newline] @
          ''Grade Level: '' @ str_int grade @ [newline] @
          ''Subject: '' @ subject @ [newline, newline] @
          ''Big Idea: '' @ concept c @ [newline, newline] @
          ''Key Learning:'' @ [newline] @ lesson c @ [newline, newline] @
          ''Try sketching or acting out the idea to help it stick!''))"

record exercise =
  question :: string
  expected_answer :: string
  hint :: string

text \<open>\<open>random.shuffle\<close> is the library's; it is the parameter \<open>shuffle\<close>, which takes the
  state of the module's generator (seeded once, at import) and the list and returns the
  shuffled list and the next state.\<close>

definition base_questions :: "string \<Rightarrow> string \<Rightarrow> string \<Rightarrow> (string \<times> string) list" where
  "base_questions subject topic cpt =
     [(''Explain the main idea of '' @ lower topic @ '' in your own words.'', cpt),
      (''Give a real-life example related to '' @ lower topic @ ''.'', cpt)] @
     (if subject = ''Mathematics'' \<and> sublist ''fraction'' (lower topic)
        then [(''What fraction of a pizza is left if you eat 3 of 8 slices?'', ''5/8'')]
      else if subject = ''Mathematics'' \<and> sublist ''multiplication'' (lower topic)
        then [(''Solve 4 '' @ [times_sign] @ '' 6.'', ''24'')]
      else if subject = ''Science'' \<and> sublist ''energy'' (lower topic)
        then [(''Name two forms of energy you use at school.'', ''light and sound'')]
      else [])"

definition generate_local_exercises ::
  "('g \<Rightarrow> (string \<times> string) list \<Rightarrow> (string \<times> string) list \<times> 'g) \<Rightarrow> 'g \<Rightarrow>
     string \<Rightarrow> int \<Rightarrow> string \<Rightarrow> error + (exercise list \<times> 'g)" where
  "generate_local_exercises shuffle g subject grade topic =
     (case select_content subject grade topic of
        Inl e \<Rightarrow> Inl e
      | Inr c \<Rightarrow>
          (let cpt = concept c;
               (shuffled, g') = shuffle g (base_questions subject topic cpt)
           in Inr (map (\<lambda>(q, a). \<lparr>question = q, expected_answer = a,
                                   hint = ''Think about: '' @ cpt\<rparr>) shuffled,
                   g')))"

text \<open>The triples present in the table, in the order of the literal.\<close>

definition table_triples :: "(string \<times> int \<times> string) list" where
  "table_triples =
     concat (map (\<lambda>(subject, grade_data).
       concat (map (\<lambda>(grade, topic_data).
         map (\<lambda>(topic, c). (subject, grade, topic)) topic_data) grade_data)) LOCAL_CONTENT)"

definition answer_question_locally :: "string \<Rightarrow> string \<Rightarrow> string" where
  "answer_question_locally qn context =
     (let question_lower = lower qn
      in if sublist ''fraction'' question_lower \<and> sublist ''pizza'' question_lower
           then ''If 3 of 8 slices are eaten, 5/8 of the pizza remains.''
         else if sublist (''4 '' @ [times_sign] @ '' 6'') qn \<or> sublist ''4 x 6'' question_lower
           then ''4 '' @ [times_sign] @ '' 6 equals 24.''
         else if sublist ''energy'' question_lower
           then ''Common forms include light, sound, and heat energy.''
         else ''Think back to the main idea of the lesson. Highlight key words in the '' @
              ''question and match them to details from the lesson text.'')"

section \<open>JSON values\<close>

text \<open>What \<open>json.loads\<close> and \<open>response.json()\<close> return: \<open>None\<close>, a bool, an int, a float,
  a str, a list or a dict with str keys. A float is kept as its \<open>repr\<close> (floating-point
  arithmetic is not modelled; the code only tests a float for truth and prints it).
  A dict is an association list, read with \<^const>\<open>map_of\<close>.\<close>

datatype json =
    JNull
  | JBool bool
  | JInt int
  | JFloat string
  | JString string
  | JArray "json list"
  | JObject "(string \<times> json) list"

text \<open>Truth value of a Python object, as \<open>if text\<close> and \<open>x or []\<close> test it.\<close>

fun truthy :: "json \<Rightarrow> bool" where
  "truthy JNull = False"
| "truthy (JBool b) = b"
| "truthy (JInt n) = (n \<noteq> 0)"
| "truthy (JFloat r) = (r \<noteq> ''0.0'' \<and> r \<noteq> ''-0.0'')"
| "truthy (JString s) = (s \<noteq> [])"
| "truthy (JArray xs) = (xs \<noteq> [])"
| "truthy (JObject kvs) = (kvs \<noteq> [])"

text \<open>\<open>x.get(key, default)\<close>: only a dict has \<open>get\<close>.\<close>

fun py_get :: "json \<Rightarrow> string \<Rightarrow> json \<Rightarrow> error + json" where
  "py_get (JObject kvs) key dflt =
     Inr (case map_of kvs key of None \<Rightarrow> dflt | Some v \<Rightarrow> v)"
| "py_get _ key dflt = Inl AttributeError"

text \<open>\<open>for x in v\<close>: a list gives its items, a str its characters, a dict its keys;
  nothing else can be iterated.\<close>

fun py_iter :: "json \<Rightarrow> error + json list" where
  "py_iter (JArray xs) = Inr xs"
| "py_iter (JString s) = Inr (map (\<lambda>c. JString [c]) s)"
| "py_iter (JObject kvs) = Inr (map (\<lambda>(k, v). JString k) kvs)"
| "py_iter _ = Inl TypeError"

text \<open>\<open>repr\<close> of a str on code points 0..255, and \<open>str(v)\<close>.\<close>

definition hex_digit :: "nat \<Rightarrow> char" where
  "hex_digit d = (if d < 10 then char_of (48 + d) else char_of (87 + d))"

definition printable :: "char \<Rightarrow> bool" where
  "printable c =
     (let n = (of_char c :: nat)
      in (32 \<le> n \<and> n < 127) \<or> (161 \<le> n \<and> n \<noteq> 173))"

definition repr_char :: "char \<Rightarrow> char \<Rightarrow> string" where
  "repr_char quote c =
     (if c = quote \<or> c = CHR 0x5C then [CHR 0x5C, c]
      else if c = CHR 0x09 then [CHR 0x5C, CHR ''t'']
      else if c = CHR 0x0A then [CHR 0x5C, CHR ''n'']
      else if c = CHR 0x0D then [CHR 0x5C, CHR ''r'']
      else if printable c then [c]
      else [CHR 0x5C, CHR ''x'', hex_digit (of_char c div 16), hex_digit (of_char c mod 16)])"

definition repr_str :: "string \<Rightarrow> string" where
  "repr_str s =
     (let quote = (if CHR 0x27 \<in> set s \<and> CHR 0x22 \<notin> set s then CHR 0x22 else CHR 0x27)
      in [quote] @ concat (map (repr_char quote) s) @ [quote])"

fun join :: "string \<Rightarrow> string list \<Rightarrow> string" where
  "join sep [] = []"
| "join sep [x] = x"
| "join sep (x # y # ys) = x @ sep @ join sep (y # ys)"

primrec py_repr :: "json \<Rightarrow> string" where
  "py_repr JNull = ''None''"
| "py_repr (JBool b) = (if b then ''True'' else ''False'')"
| "py_repr (JInt n) = str_int n"
| "py_repr (JFloat r) = r"
| "py_repr (JString s) = repr_str s"
| "py_repr (JArray xs) = ''['' @ join '', '' (map py_repr xs) @ '']''"
| "py_repr (JObject kvs) =
     ''{'' @ join '', '' (map (\<lambda>(k, r). repr_str k @ '': '' @ r) (map (map_prod id py_repr) kvs)) @ ''}''"

definition py_str :: "json \<Rightarrow> string" where
  "py_str v = (case v of JString s \<Rightarrow> s | _ \<Rightarrow> py_repr v)"

text \<open>\<open>v.strip()\<close>: only a str has \<open>strip\<close>.\<close>

definition py_strip :: "json \<Rightarrow> error + string" where
  "py_strip v = (case v of JString s \<Rightarrow> Inr (strip s) | _ \<Rightarrow> Inl AttributeError)"

section \<open>ai_interface.py\<close>

text \<open>What lies outside the program. \<open>GEMINI_API_KEY\<close> is the environment variable read at
  import. \<open>post\<close> is the endpoint's reaction to the request built from a prompt:
  \<open>client.post\<close> raises, or \<open>raise_for_status\<close> raises for the status returned, or the
  reply has a body. \<open>json_loads\<close> is the library's JSON parser, \<open>None\<close> where it raises.\<close>

datatype http_reply =
    Post_Raises
  | Status_Raises nat
  | Body string

record world =
  GEMINI_API_KEY :: "string option"
  post :: "string \<Rightarrow> http_reply"
  json_loads :: "string \<Rightarrow> json option"

fun first_text :: "json list \<Rightarrow> error + json option" where
  "first_text [] = Inr None"
| "first_text (part # parts) =
     (case py_get part ''text'' JNull of
        Inl e \<Rightarrow> Inl e
      | Inr text \<Rightarrow> if truthy text then Inr (Some text) else first_text parts)"

fun scan_candidates :: "json list \<Rightarrow> error + json option" where
  "scan_candidates [] = Inr None"
| "scan_candidates (candidate # candidates) =
     (case py_get candidate ''content'' (JObject []) of
        Inl e \<Rightarrow> Inl e
      | Inr c \<Rightarrow>
         (case py_get c ''parts'' (JArray []) of
            Inl e \<Rightarrow> Inl e
          | Inr parts \<Rightarrow>
             (case py_iter parts of
                Inl e \<Rightarrow> Inl e
              | Inr ps \<Rightarrow>
                 (case first_text ps of
                    Inl e \<Rightarrow> Inl e
                  | Inr (Some text) \<Rightarrow> Inr (Some text)
                  | Inr None \<Rightarrow> scan_candidates candidates))))"

definition extract_text :: "json \<Rightarrow> error + json" where
  "extract_text data =
     (case py_get data ''candidates'' JNull of
        Inl e \<Rightarrow> Inl e
      | Inr v \<Rightarrow>
         (case py_iter (if truthy v then v else JArray []) of
            Inl e \<Rightarrow> Inl e
          | Inr candidates \<Rightarrow>
             (case scan_candidates candidates of
                Inl e \<Rightarrow> Inl e
              | Inr (Some text) \<Rightarrow> Inr text
              | Inr None \<Rightarrow> Inl RuntimeError)))"

definition request_from_gemini :: "world \<Rightarrow> string \<Rightarrow> error + json" where
  "request_from_gemini w prompt =
     (case GEMINI_API_KEY w of
        None \<Rightarrow> Inl RuntimeError
      | Some key \<Rightarrow>
         if key = [] then Inl RuntimeError
         else (case post w prompt of
                 Post_Raises \<Rightarrow> Inl HTTPError
               | Status_Raises n \<Rightarrow> Inl (HTTPStatusError n)
               | Body b \<Rightarrow>
                  (case json_loads w b of
                     None \<Rightarrow> Inl JSONDecodeError
                   | Some data \<Rightarrow> extract_text data)))"

definition lesson_prompt :: "string \<Rightarrow> int \<Rightarrow> string \<Rightarrow> string" where
  "lesson_prompt subject grade topic =
     ''You are a friendly elementary school teacher. '' @
     ''Create a concise lesson for grade '' @ str_int grade @ '' '' @ subject @
     '' learners about '' @ topic @ ''. '' @
     ''Use inviting language, short paragraphs, and include one practical activity suggestion.''"

text \<open>The body of the \<open>try\<close> of \<open>generate_lesson\<close>.\<close>

definition remote_lesson :: "world \<Rightarrow> string \<Rightarrow> int \<Rightarrow> string \<Rightarrow> error + string" where
  "remote_lesson w subject grade topic =
     (case request_from_gemini w (lesson_prompt subject grade topic) of
        Inl e \<Rightarrow> Inl e
      | Inr lesson_text \<Rightarrow> py_strip lesson_text)"

definition generate_lesson :: "world \<Rightarrow> string \<Rightarrow> int \<Rightarrow> string \<Rightarrow> error + string" where
  "generate_lesson w subject grade topic =
     (case remote_lesson w subject grade topic of
        Inr text \<Rightarrow> Inr text
      | Inl exc \<Rightarrow> generate_local_lesson subject grade topic)"

definition exercises_prompt :: "string \<Rightarrow> int \<Rightarrow> string \<Rightarrow> string" where
  "exercises_prompt subject grade topic =
     ''Create three short practice questions for grade '' @ str_int grade @
     '' students in '' @ subject @ '' about '' @ topic @ ''. '' @
     ''Respond with a JSON list where each item has keys 'question', 'expected_answer', and 'hint'.''"

text \<open>\<open>json.loads(v)\<close>: a value that is not a str is a \<open>TypeError\<close>.\<close>

definition py_json_loads :: "world \<Rightarrow> json \<Rightarrow> error + json" where
  "py_json_loads w v =
     (case v of
        JString s \<Rightarrow> (case json_loads w s of None \<Rightarrow> Inl JSONDecodeError | Some d \<Rightarrow> Inr d)
      | _ \<Rightarrow> Inl TypeError)"

text \<open>\<open>d.get(key, default)\<close> on a dict.\<close>

definition dict_get :: "(string \<times> json) list \<Rightarrow> string \<Rightarrow> json \<Rightarrow> json" where
  "dict_get kvs key dflt = (case map_of kvs key of None \<Rightarrow> dflt | Some v \<Rightarrow> v)"

text \<open>The loop over the entries: an entry that is not a dict raises, an entry whose
  question is empty is skipped, the others are appended in order.\<close>

fun parse_entries :: "json list \<Rightarrow> error + exercise list" where
  "parse_entries [] = Inr []"
| "parse_entries (JObject kvs # es) =
     (let q = strip (py_str (dict_get kvs ''question'' (JString [])));
          a = strip (py_str (dict_get kvs ''expected_answer'' (JString [])));
          h = py_str (dict_get kvs ''hint'' (JString ''Use clues from the lesson.''))
      in case parse_entries es of
           Inl e \<Rightarrow> Inl e
         | Inr parsed \<Rightarrow>
             Inr (if q \<noteq> [] then \<lparr>question = q, expected_answer = a, hint = h\<rparr> # parsed
                  else parsed))"
| "parse_entries (_ # es) = Inl ValueError"

text \<open>The body of the \<open>try\<close> of \<open>generate_exercises\<close>.\<close>

definition remote_exercises :: "world \<Rightarrow> string \<Rightarrow> int \<Rightarrow> string \<Rightarrow> error + exercise list" where
  "remote_exercises w subject grade topic =
     (case request_from_gemini w (exercises_prompt subject grade topic) of
        Inl e \<Rightarrow> Inl e
      | Inr response_text \<Rightarrow>
         (case py_json_loads w response_text of
            Inl e \<Rightarrow> Inl e
          | Inr (JArray exercises) \<Rightarrow>
             (case parse_entries exercises of
                Inl e \<Rightarrow> Inl e
              | Inr parsed \<Rightarrow> if parsed \<noteq> [] then Inr parsed else Inl ValueError)
          | Inr _ \<Rightarrow> Inl ValueError))"

definition generate_exercises ::
  "world \<Rightarrow> ('g \<Rightarrow> (string \<times> string) list \<Rightarrow> (string \<times> string) list \<times> 'g) \<Rightarrow> 'g \<Rightarrow>
     string \<Rightarrow> int \<Rightarrow> string \<Rightarrow> error + (exercise list \<times> 'g)" where
  "generate_exercises w shuffle g subject grade topic =
     (case remote_exercises w subject grade topic of
        Inr parsed \<Rightarrow> Inr (parsed, g)
      | Inl exc \<Rightarrow> generate_local_exercises shuffle g subject grade topic)"

definition answer_prompt :: "string \<Rightarrow> string \<Rightarrow> string \<Rightarrow> string" where
  "answer_prompt qn lesson_context student_answer =
     ''You are an encouraging tutor. A student answered a question incorrectly. '' @
     ''Provide gentle feedback using the lesson summary and student response.'' @ [newline] @
     ''Lesson summary: '' @ lesson_context @ [newline] @
     ''Question: '' @ qn @ [newline] @
     ''Student answer: '' @ student_answer @ [newline] @
     ''Respond with two short sentences offering guidance.''"

definition remote_answer :: "world \<Rightarrow> string \<Rightarrow> string \<Rightarrow> string \<Rightarrow> error + string" where
  "remote_answer w qn lesson_context student_answer =
     (case request_from_gemini w (answer_prompt qn lesson_context student_answer) of
        Inl e \<Rightarrow> Inl e
      | Inr text \<Rightarrow> py_strip text)"

definition answer_question :: "world \<Rightarrow> string \<Rightarrow> string \<Rightarrow> string \<Rightarrow> error + string" where
  "answer_question w qn lesson_context student_answer =
     (case remote_answer w qn lesson_context student_answer of
        Inr text \<Rightarrow> Inr text
      | Inl exc \<Rightarrow> Inr (answer_question_locally qn lesson_context))"

section \<open>data_store.py\<close>

text \<open>The entries of \<open>completed_lessons\<close> and \<open>completed_tests\<close> are the dicts that
  \<open>main.py\<close> builds: a str subject, an int grade, a str topic, and for a test an int
  score and an int total. Equality of records is Python's equality of such dicts.\<close>

record lesson_entry =
  entry_subject :: string
  entry_grade :: int
  entry_topic :: string

record test_entry = lesson_entry +
  entry_score :: int
  entry_total :: int

record StudentProgress =
  student_id :: string
  completed_lessons :: "lesson_entry list"
  completed_tests :: "test_entry list"

definition DEFAULT_DATA_DIR :: string where
  "DEFAULT_DATA_DIR = ''data''"

text \<open>\<open>str.replace(os.sep, "_")\<close> and \<open>os.path.join\<close> on a POSIX system.\<close>

definition replace_sep :: "string \<Rightarrow> string" where
  "replace_sep s = map (\<lambda>c. if c = CHR ''/'' then CHR ''_'' else c) s"

definition path_join :: "string \<Rightarrow> string \<Rightarrow> string" where
  "path_join a b =
     (if b \<noteq> [] \<and> hd b = CHR ''/'' then b
      else if a = [] \<or> last a = CHR ''/'' then a @ b
      else a @ ''/'' @ b)"

text \<open>The file system: the text of every file, by path, and what its calls refuse.
  \<open>makedirs_raises\<close> is the exception of \<open>os.makedirs(d, exist_ok=True)\<close>,
  \<open>open_write_raises\<close> that of \<open>open(path, "w")\<close> and \<open>open_read_raises\<close> that of
  \<open>open(path, "r")\<close>, \<open>None\<close> where the call returns. Directories are not kept: a
  path exists when it has a text.\<close>

record disk =
  contents :: "string \<rightharpoonup> string"
  makedirs_raises :: "string \<Rightarrow> error option"
  open_write_raises :: "string \<Rightarrow> error option"
  open_read_raises :: "string \<Rightarrow> error option"

text \<open>\<open>_progress_path\<close>: the directory is made first, and an exception of \<open>os.makedirs\<close>
  leaves the function.\<close>

definition progress_path :: "string \<Rightarrow> string \<Rightarrow> disk \<Rightarrow> error + string" where
  "progress_path sid data_dir fs =
     (case makedirs_raises fs data_dir of
        Some e \<Rightarrow> Inl e
      | None \<Rightarrow>
          (let safe_id = replace_sep sid
           in Inr (path_join data_dir (safe_id @ ''.json''))))"

text \<open>\<open>asdict\<close>: the dataclass as a dict of its fields, the entries as the dicts they are.\<close>

definition lesson_dict :: "lesson_entry \<Rightarrow> json" where
  "lesson_dict e =
     JObject [(''subject'', JString (entry_subject e)),
              (''grade'', JInt (entry_grade e)),
              (''topic'', JString (entry_topic e))]"

definition test_dict :: "test_entry \<Rightarrow> json" where
  "test_dict e =
     JObject [(''subject'', JString (entry_subject e)),
              (''grade'', JInt (entry_grade e)),
              (''topic'', JString (entry_topic e)),
              (''score'', JInt (entry_score e)),
              (''total'', JInt (entry_total e))]"

definition asdict :: "StudentProgress \<Rightarrow> json" where
  "asdict p =
     JObject [(''student_id'', JString (student_id p)),
              (''completed_lessons'', JArray (map lesson_dict (completed_lessons p))),
              (''completed_tests'', JArray (map test_dict (completed_tests p)))]"

text \<open>The document that is read back from a text written with \<open>sort_keys=True\<close>: every
  dict has its keys in order.\<close>

primrec sort_keys :: "json \<Rightarrow> json" where
  "sort_keys JNull = JNull"
| "sort_keys (JBool b) = JBool b"
| "sort_keys (JInt n) = JInt n"
| "sort_keys (JFloat r) = JFloat r"
| "sort_keys (JString s) = JString s"
| "sort_keys (JArray xs) = JArray (map sort_keys xs)"
| "sort_keys (JObject kvs) = JObject (sort_key fst (map (map_prod id sort_keys) kvs))"





text \<open>\<open>json.dump\<close> with \<open>indent=2, sort_keys=True\<close> is the parameter \<open>dump\<close>,
  \<open>json.load\<close> the parameter \<open>loads\<close>: both are the library's. \<open>save_progress\<close> writes
  nothing when \<open>_progress_path\<close> or \<open>open\<close> raises.\<close>

definition save_progress ::
  "(json \<Rightarrow> string) \<Rightarrow> StudentProgress \<Rightarrow> string \<Rightarrow> disk \<Rightarrow> error + disk" where
  "save_progress dump p data_dir fs =
     (case progress_path (student_id p) data_dir fs of
        Inl e \<Rightarrow> Inl e
      | Inr path \<Rightarrow>
          (case open_write_raises fs path of
             Some e \<Rightarrow> Inl e
           | None \<Rightarrow> Inr (fs\<lparr>contents := (contents fs)(path \<mapsto> dump (asdict p))\<rparr>)))"


section \<open>main.py: the recording handlers of \<open>MainWindow\<close>\<close>

record app =
  progress :: StudentProgress
  current_subject :: "string option"
  current_grade :: "int option"
  current_topic :: "string option"
  current_lesson_text :: string
  files :: disk

text \<open>\<open>_persist_progress\<close> catches every exception of \<open>save_progress\<close> and logs it.\<close>

definition persist_progress :: "(json \<Rightarrow> string) \<Rightarrow> app \<Rightarrow> app" where
  "persist_progress dump a =
     (case save_progress dump (progress a) DEFAULT_DATA_DIR (files a) of
        Inl exc \<Rightarrow> a
      | Inr fs \<Rightarrow> a\<lparr>files := fs\<rparr>)"

text \<open>\<open>_open_lesson\<close>. An exception of \<open>generate_lesson_sync\<close> leaves the handler before the
  lesson is recorded.\<close>

definition open_lesson ::
  "world \<Rightarrow> (json \<Rightarrow> string) \<Rightarrow> string \<Rightarrow> int \<Rightarrow> string \<Rightarrow> app \<Rightarrow> error + app" where
  "open_lesson w dump subject grade topic a =
     (let a1 = a\<lparr>current_subject := Some subject, current_grade := Some grade,
                  current_topic := Some topic\<rparr>
      in case generate_lesson w subject grade topic of
           Inl e \<Rightarrow> Inl e
         | Inr text \<Rightarrow>
             (let a2 = a1\<lparr>current_lesson_text := text\<rparr>;
                  entry = \<lparr>entry_subject = subject, entry_grade = grade, entry_topic = topic\<rparr>
              in if entry \<notin> set (completed_lessons (progress a2))
                 then Inr (persist_progress dump
                        (a2\<lparr>progress := (progress a2)\<lparr>completed_lessons :=
                               completed_lessons (progress a2) @ [entry]\<rparr>\<rparr>))
                 else Inr a2))"

text \<open>The test \<open>self.current_subject and self.current_grade and self.current_topic\<close>:
  \<open>None\<close>, an empty str and 0 are false.\<close>

definition lesson_chosen :: "app \<Rightarrow> bool" where
  "lesson_chosen a =
     ((case current_subject a of None \<Rightarrow> False | Some s \<Rightarrow> s \<noteq> []) \<and>
      (case current_grade a of None \<Rightarrow> False | Some g \<Rightarrow> g \<noteq> 0) \<and>
      (case current_topic a of None \<Rightarrow> False | Some t \<Rightarrow> t \<noteq> []))"

definition record_test :: "(json \<Rightarrow> string) \<Rightarrow> int \<Rightarrow> int \<Rightarrow> app \<Rightarrow> app" where
  "record_test dump score total_n a =
     (if \<not> lesson_chosen a then a
      else
        (let test_entry = \<lparr>entry_subject = the (current_subject a),
                           entry_grade = the (current_grade a),
                           entry_topic = the (current_topic a),
                           entry_score = score, entry_total = total_n\<rparr>
         in persist_progress dump
              (a\<lparr>progress := (progress a)\<lparr>completed_tests :=
                     completed_tests (progress a) @ [test_entry]\<rparr>\<rparr>)))"

text \<open>A session: the signals \<open>lesson_selected\<close> and \<open>test_completed\<close> in the order they
  arrive; an exception that leaves a handler ends it.\<close>

datatype event = Lesson_Selected string int string | Test_Completed int int

fun handle :: "world \<Rightarrow> (json \<Rightarrow> string) \<Rightarrow> app \<Rightarrow> event \<Rightarrow> error + app" where
  "handle w dump a (Lesson_Selected subject grade topic) = open_lesson w dump subject grade topic a"
| "handle w dump a (Test_Completed score total_n) = Inr (record_test dump score total_n a)"

fun run :: "world \<Rightarrow> (json \<Rightarrow> string) \<Rightarrow> app \<Rightarrow> event list \<Rightarrow> error + app" where
  "run w dump a [] = Inr a"
| "run w dump a (ev # evs) =
     (case handle w dump a ev of Inl e \<Rightarrow> Inl e | Inr a' \<Rightarrow> run w dump a' evs)"

section \<open>Notions and inputs of the statements\<close>

text \<open>The notions that the statements below use beside the program, and the inputs at
  which the statements are evaluated.\<close>

text \<open>A shuffle that depends on the state of the generator: it rotates the list.\<close>

definition rotate_shuffle ::
  "nat \<Rightarrow> (string \<times> string) list \<Rightarrow> (string \<times> string) list \<times> nat" where
  "rotate_shuffle g xs = (rotate g xs, Suc g)"

text \<open>No API key in the environment.\<close>

definition offline_world :: world where
  "offline_world =
     \<lparr>GEMINI_API_KEY = None, post = (\<lambda>prompt. Post_Raises), json_loads = (\<lambda>text. None)\<rparr>"

text \<open>The three failures of the remote attempt that the specification names: an error
  status, a body that is not JSON, a reply whose candidate list is empty.\<close>

definition mocked_failure :: "world \<Rightarrow> string \<Rightarrow> bool" where
  "mocked_failure w prompt =
     (case post w prompt of
        Post_Raises \<Rightarrow> False
      | Status_Raises n \<Rightarrow> True
      | Body b \<Rightarrow>
         (case json_loads w b of
            None \<Rightarrow> True
          | Some (JObject kvs) \<Rightarrow> map_of kvs ''candidates'' = Some (JArray [])
          | Some _ \<Rightarrow> False))"

text \<open>Worlds with an API key whose endpoint fails in each of the three ways.\<close>

definition quoted :: "string \<Rightarrow> string" where
  "quoted s = [CHR 0x22] @ s @ [CHR 0x22]"

definition world_500 :: world where
  "world_500 =
     \<lparr>GEMINI_API_KEY = Some ''secret'', post = (\<lambda>prompt. Status_Raises 500),
      json_loads = (\<lambda>text. None)\<rparr>"

definition world_malformed :: world where
  "world_malformed =
     \<lparr>GEMINI_API_KEY = Some ''secret'', post = (\<lambda>prompt. Body ''<html>''),
      json_loads = (\<lambda>text. None)\<rparr>"

definition world_no_candidates :: world where
  "world_no_candidates =
     \<lparr>GEMINI_API_KEY = Some ''secret'',
      post = (\<lambda>prompt. Body (''{'' @ quoted ''candidates'' @ '': []}'')),
      json_loads = map_of [(''{'' @ quoted ''candidates'' @ '': []}'',
                            JObject [(''candidates'', JArray [])])]\<rparr>"

text \<open>The specification's reading of a well-formed reply: an object whose \<open>candidates\<close>
  is a list of objects, each with a \<open>content\<close> object whose \<open>parts\<close> is a list of
  objects with a str \<open>text\<close>. \<open>payload_texts\<close> is the list of these texts in the order
  of the candidates and their parts (\<open>None\<close> for a reply of another shape), and
  \<open>first_nonempty_text\<close> the first of them that is not empty.\<close>

definition part_text :: "json \<Rightarrow> string option" where
  "part_text p =
     (case p of
        JObject kvs \<Rightarrow> (case map_of kvs ''text'' of Some (JString s) \<Rightarrow> Some s | _ \<Rightarrow> None)
      | _ \<Rightarrow> None)"

definition candidate_texts :: "json \<Rightarrow> string list option" where
  "candidate_texts c =
     (case c of
        JObject kvs \<Rightarrow>
          (case map_of kvs ''content'' of
             Some (JObject ckvs) \<Rightarrow>
               (case map_of ckvs ''parts'' of
                  Some (JArray ps) \<Rightarrow> those (map part_text ps)
                | _ \<Rightarrow> None)
           | _ \<Rightarrow> None)
      | _ \<Rightarrow> None)"

definition payload_texts :: "json \<Rightarrow> string list option" where
  "payload_texts d =
     (case d of
        JObject kvs \<Rightarrow>
          (case map_of kvs ''candidates'' of
             Some (JArray cs) \<Rightarrow> map_option concat (those (map candidate_texts cs))
           | _ \<Rightarrow> None)
      | _ \<Rightarrow> None)"

definition first_nonempty_text :: "json \<Rightarrow> string option" where
  "first_nonempty_text d =
     (case payload_texts d of None \<Rightarrow> None | Some ts \<Rightarrow> find (\<lambda>t. t \<noteq> []) ts)"

text \<open>A well-formed reply whose first text is empty, and a world that returns it.\<close>

definition candidate_payload :: json where
  "candidate_payload =
     JObject [(''candidates'', JArray
       [JObject [(''content'', JObject [(''parts'', JArray
          [JObject [(''text'', JString [])],
           JObject [(''text'', JString (''  Mix two colours.'' @ [newline]))]])])],
        JObject [(''content'', JObject [(''parts'', JArray
          [JObject [(''text'', JString ''Second candidate'')]])])]])]"

definition world_candidates :: world where
  "world_candidates =
     \<lparr>GEMINI_API_KEY = Some ''secret'', post = (\<lambda>prompt. Body ''payload''),
      json_loads = map_of [(''payload'', candidate_payload)]\<rparr>"

text \<open>The exercises that the loop of \<open>generate_exercises\<close> keeps, said without the loop:
  of the dicts of the list, those whose question is not empty once converted and stripped,
  each turned into an exercise.\<close>

definition is_object :: "json \<Rightarrow> bool" where
  "is_object v = (case v of JObject kvs \<Rightarrow> True | _ \<Rightarrow> False)"

definition object_fields :: "json \<Rightarrow> (string \<times> json) list" where
  "object_fields v = (case v of JObject kvs \<Rightarrow> kvs | _ \<Rightarrow> [])"

definition entry_question :: "(string \<times> json) list \<Rightarrow> string" where
  "entry_question kvs = strip (py_str (dict_get kvs ''question'' (JString [])))"

definition exercise_of :: "(string \<times> json) list \<Rightarrow> exercise" where
  "exercise_of kvs =
     \<lparr>question = entry_question kvs,
      expected_answer = strip (py_str (dict_get kvs ''expected_answer'' (JString []))),
      hint = py_str (dict_get kvs ''hint'' (JString ''Use clues from the lesson.''))\<rparr>"

definition kept_exercises :: "json list \<Rightarrow> exercise list" where
  "kept_exercises es =
     map exercise_of (filter (\<lambda>kvs. entry_question kvs \<noteq> []) (map object_fields es))"

text \<open>A reply whose text is \<open>exercise list\<close>, a list of two entries of which the first has
  no question and the second no hint, and worlds in which that text parses to a given
  value or not at all.\<close>

definition exercise_reply :: json where
  "exercise_reply =
     JObject [(''candidates'', JArray
       [JObject [(''content'', JObject [(''parts'', JArray
          [JObject [(''text'', JString ''exercise list'')]])])]])]"

definition exercise_entries :: "json list" where
  "exercise_entries =
     [JObject [(''expected_answer'', JString ''12'')],
      JObject [(''question'', JString ''  Solve 3 x 4. ''),
               (''expected_answer'', JString '' 12 '')]]"

definition exercise_world :: "json option \<Rightarrow> world" where
  "exercise_world parsed =
     \<lparr>GEMINI_API_KEY = Some ''secret'', post = (\<lambda>prompt. Body ''payload''),
      json_loads = map_of ((''payload'', exercise_reply) #
                           (case parsed of None \<Rightarrow> [] | Some v \<Rightarrow> [(''exercise list'', v)]))\<rparr>"

text \<open>A printer and a parser for the round trip: the printer writes the \<open>repr\<close> of the
  document with its keys in order, the parser knows the documents of a given list. A
  progress record with two lessons and one test.\<close>

definition demo_dump :: "json \<Rightarrow> string" where
  "demo_dump d = py_repr (sort_keys d)"



text \<open>An empty file system that refuses what a POSIX system refuses whatever its state,
  an empty directory name and a NUL in a name, and nothing else; the same after
  \<open>demo_progress\<close> has been saved in \<open>data\<close>; a progress record whose student id has a
  NUL; and saving followed by loading, where an exception of \<open>save_progress\<close> ends the
  sequence.\<close>

definition empty_disk :: disk where
  "empty_disk =
     \<lparr>contents = Map.empty,
      makedirs_raises = (\<lambda>d. if d = [] then Some FileNotFoundError
                             else if CHR 0x00 \<in> set d then Some ValueError else None),
      open_write_raises = (\<lambda>path. if CHR 0x00 \<in> set path then Some ValueError else None),
      open_read_raises = (\<lambda>path. if CHR 0x00 \<in> set path then Some ValueError else None)\<rparr>"




text \<open>A session as the pages allow it: a lesson is selected with a subject, a grade and a
  topic that the lists offer (none is empty or 0), and a quiz is completed only when a
  lesson has been chosen before. \<open>quiz_count\<close> counts the quizzes completed.\<close>

fun ui_session :: "bool \<Rightarrow> event list \<Rightarrow> bool" where
  "ui_session chosen [] = True"
| "ui_session chosen (Lesson_Selected subject grade topic # evs) =
     (subject \<noteq> [] \<and> grade \<noteq> 0 \<and> topic \<noteq> [] \<and> ui_session True evs)"
| "ui_session chosen (Test_Completed score n # evs) = (chosen \<and> ui_session chosen evs)"

fun quiz_count :: "event list \<Rightarrow> nat" where
  "quiz_count [] = 0"
| "quiz_count (Lesson_Selected subject grade topic # evs) = quiz_count evs"
| "quiz_count (Test_Completed score n # evs) = Suc (quiz_count evs)"

text \<open>The state of \<open>MainWindow\<close> after \<open>__init__\<close> with an empty disk, a session that opens
  one lesson twice and completes its quiz twice with the same score, and a state in which
  a lesson has been chosen.\<close>

definition initial_app :: app where
  "initial_app =
     \<lparr>progress = \<lparr>student_id = ''student'', completed_lessons = [], completed_tests = []\<rparr>,
      current_subject = None, current_grade = None, current_topic = None,
      current_lesson_text = [], files = empty_disk\<rparr>"

definition session :: "event list" where
  "session =
     [Lesson_Selected ''Science'' 3 ''Life Cycles'', Lesson_Selected ''Science'' 3 ''Life Cycles'',
      Test_Completed 2 3, Test_Completed 2 3]"

definition chosen_app :: app where
  "chosen_app =
     initial_app\<lparr>current_subject := Some ''Science'', current_grade := Some 3,
                  current_topic := Some ''Life Cycles''\<rparr>"

section \<open>The local generator\<close>


lemma present_all:
  "list_all (\<lambda>(s, g, t). case select_content s g t of Inr c \<Rightarrow> True | Inl e \<Rightarrow> False)
     table_triples"
  by code_simp

lemma present_select:
  assumes "(subject, grade, topic) \<in> set table_triples"
  shows "\<exists>c. select_content subject grade topic = Inr c"
proof -
  from present_all assms
  have "case select_content subject grade topic of Inr c \<Rightarrow> True | Inl e \<Rightarrow> False"
    unfolding list_all_iff by fastforce
  then show ?thesis by (cases "select_content subject grade topic") simp_all
qed

lemma lesson_text:
  assumes "select_content subject grade topic = Inr c"
  shows "\<exists>text. generate_local_lesson subject grade topic = Inr text \<and> text \<noteq> [] \<and>
           sublist topic text \<and> sublist (str_int grade) text"
proof -
  define a where "a = ''Lesson Topic: ''"
  define b where "b = [newline] @ ''Grade Level: ''"
  define d where "d = [newline] @
          ''Subject: '' @ subject @ [newline, newline] @
          ''Big Idea: '' @ concept c @ [newline, newline] @
          ''Key Learning:'' @ [newline] @ lesson c @ [newline, newline] @
          ''Try sketching or acting out the idea to help it stick!''"
  have eq: "generate_local_lesson subject grade topic = Inr (a @ topic @ b @ str_int grade @ d)"
    using assms by (simp add: generate_local_lesson_def a_def b_def d_def)
  have "sublist (str_int grade) ((a @ topic @ b) @ str_int grade @ d)"
    by (rule sublist_appendI)
  then have "sublist (str_int grade) (a @ topic @ b @ str_int grade @ d)" by simp
  moreover have "sublist topic (a @ topic @ b @ str_int grade @ d)" by (rule sublist_appendI)
  moreover have "a @ topic @ b @ str_int grade @ d \<noteq> []" by (simp add: a_def)
  ultimately show ?thesis using eq by blast
qed



lemma local_exercises_shape:
  assumes "select_content subject grade topic = Inr c"
  shows "generate_local_exercises shuffle g subject grade topic =
     Inr (map (\<lambda>(q, a). \<lparr>question = q, expected_answer = a,
                           hint = ''Think about: '' @ concept c\<rparr>)
            (fst (shuffle g (base_questions subject topic (concept c)))),
          snd (shuffle g (base_questions subject topic (concept c))))"
  using assms by (simp add: generate_local_exercises_def Let_def split: prod.splits)

lemma base_questions_nonempty:
  "(q, a) \<in> set (base_questions subject topic cpt) \<Longrightarrow> q \<noteq> []"
  by (auto simp: base_questions_def split: if_splits)

lemma base_questions_not_Nil: "base_questions subject topic cpt \<noteq> []"
  by (simp add: base_questions_def)

lemma mset_rotate_eq: "mset (rotate n xs) = mset xs"
proof -
  have "mset (drop k xs @ take k xs) = mset (take k xs @ drop k xs)" for k
    by (simp only: mset_append add.commute)
  then show ?thesis by (simp only: rotate_drop_take append_take_drop_id)
qed

text \<open>Claim C8. Let \<open>random.shuffle\<close> return a permutation of its argument. For every
  triple of the local content table \<open>generate_local_exercises\<close> returns a list of
  exercises that is not empty, every exercise in it has a non-empty question and a
  non-empty hint, and whatever the state of the generator, the exercises returned are the
  same up to their order; in particular the set of questions is the same.\<close>

theorem local_exercises_nonempty_and_stable:
  assumes perm: "\<forall>g xs. mset (fst (shuffle g xs)) = mset xs"
    and present: "(subject, grade, topic) \<in> set table_triples"
  shows "\<exists>exs g'. generate_local_exercises shuffle g subject grade topic = Inr (exs, g') \<and>
           exs \<noteq> [] \<and> (\<forall>e\<in>set exs. question e \<noteq> [] \<and> hint e \<noteq> []) \<and>
           (\<forall>g2. \<exists>exs2 g2'.
              generate_local_exercises shuffle g2 subject grade topic = Inr (exs2, g2') \<and>
              mset exs2 = mset exs \<and>
              set (map question exs2) = set (map question exs))"
proof -
  obtain c where c: "select_content subject grade topic = Inr c"
    using present_select [OF present] by blast
  define bq where "bq = base_questions subject topic (concept c)"
  define mk where "mk = (\<lambda>(q, a). \<lparr>question = q, expected_answer = a,
                                     hint = ''Think about: '' @ concept c\<rparr>)"
  define out where "out = (\<lambda>g. map mk (fst (shuffle g bq)))"
  have res: "generate_local_exercises shuffle h subject grade topic = Inr (out h, snd (shuffle h bq))"
    for h
    unfolding out_def mk_def bq_def by (rule local_exercises_shape [OF c])
  have ms: "mset (out h) = image_mset mk (mset bq)" for h
    using perm by (simp add: out_def)
  have st: "set (out h) = mk ` set bq" for h
    using ms [of h] by (metis set_mset_mset set_image_mset)
  have ne: "out g \<noteq> []"
    using ms [of g] base_questions_not_Nil [of subject topic "concept c"]
    by (auto simp: bq_def)
  have fields: "question e \<noteq> [] \<and> hint e \<noteq> []" if "e \<in> set (out g)" for e
  proof -
    from that st obtain q a where qa: "(q, a) \<in> set bq" "e = mk (q, a)" by auto
    then have "q \<noteq> []" using base_questions_nonempty by (simp add: bq_def)
    with qa show ?thesis by (simp add: mk_def)
  qed
  have stable: "mset (out g2) = mset (out g) \<and> set (map question (out g2)) = set (map question (out g))"
    for g2
    using ms [of g2] ms [of g] st [of g2] st [of g] by simp
  show ?thesis
    using res ne fields stable by blast
qed

theorem local_exercises_nonempty_and_stable_witness:
  "(\<forall>g xs. mset (fst (rotate_shuffle g xs)) = mset xs) \<and>
   (''Science'', 4, ''Energy'') \<in> set table_triples \<and>
   (\<exists>exs g'. generate_local_exercises rotate_shuffle 1 ''Science'' 4 ''Energy'' = Inr (exs, g') \<and>
           exs \<noteq> [] \<and> (\<forall>e\<in>set exs. question e \<noteq> [] \<and> hint e \<noteq> []) \<and>
           (\<forall>g2. \<exists>exs2 g2'.
              generate_local_exercises rotate_shuffle g2 ''Science'' 4 ''Energy'' = Inr (exs2, g2') \<and>
              mset exs2 = mset exs \<and>
              set (map question exs2) = set (map question exs)))"
proof -
  have perm: "\<forall>g xs. mset (fst (rotate_shuffle g xs)) = mset xs"
    by (simp add: rotate_shuffle_def mset_rotate_eq)
  have present: "(''Science'', 4, ''Energy'') \<in> set table_triples"
    by code_simp
  show ?thesis
    by (rule conjI [OF perm conjI [OF present
          local_exercises_nonempty_and_stable [OF perm present]]])
qed

lemma offered_present:
  "\<forall>g\<in>set get_available_grades. \<forall>s\<in>set (get_subjects_for_grade g).
     \<forall>t\<in>set (get_topics s g). (s, g, t) \<in> set table_triples"
  by code_simp

text \<open>Claim C9. Whatever grade \<open>get_available_grades\<close> offers, whatever subject
  \<open>get_subjects_for_grade\<close> offers for it and whatever topic \<open>get_topics\<close> offers for
  both, the triple is in \<open>LOCAL_CONTENT\<close>, and \<open>_select_content\<close>,
  \<open>generate_local_lesson\<close> and \<open>generate_local_exercises\<close> return without a
  \<open>KeyError\<close>.\<close>

theorem navigation_offers_only_local_content:
  "\<forall>g\<in>set get_available_grades. \<forall>s\<in>set (get_subjects_for_grade g).
     \<forall>t\<in>set (get_topics s g).
       (s, g, t) \<in> set table_triples \<and>
       (\<exists>c. select_content s g t = Inr c) \<and>
       (\<exists>text. generate_local_lesson s g t = Inr text) \<and>
       (\<exists>r. generate_local_exercises shuffle rng s g t = Inr r)"
proof (intro ballI)
  fix g s t
  assume "g \<in> set get_available_grades" "s \<in> set (get_subjects_for_grade g)"
    "t \<in> set (get_topics s g)"
  then have present: "(s, g, t) \<in> set table_triples"
    using offered_present by blast
  then obtain c where c: "select_content s g t = Inr c"
    using present_select by blast
  have "\<exists>text. generate_local_lesson s g t = Inr text"
    using lesson_text [OF c] by blast
  moreover have "\<exists>r. generate_local_exercises shuffle rng s g t = Inr r"
    by (simp add: local_exercises_shape [OF c])
  ultimately show "(s, g, t) \<in> set table_triples \<and>
       (\<exists>c. select_content s g t = Inr c) \<and>
       (\<exists>text. generate_local_lesson s g t = Inr text) \<and>
       (\<exists>r. generate_local_exercises shuffle rng s g t = Inr r)"
    using present c by blast
qed

theorem navigation_offers_only_local_content_witness:
  "3 \<in> set get_available_grades \<and> ''Science'' \<in> set (get_subjects_for_grade 3) \<and>
   ''Life Cycles'' \<in> set (get_topics ''Science'' 3) \<and>
   (''Science'', 3, ''Life Cycles'') \<in> set table_triples \<and>
   (\<exists>c. select_content ''Science'' 3 ''Life Cycles'' = Inr c) \<and>
   (\<exists>text. generate_local_lesson ''Science'' 3 ''Life Cycles'' = Inr text) \<and>
   (\<exists>r. generate_local_exercises rotate_shuffle 0 ''Science'' 3 ''Life Cycles'' = Inr r)"
proof -
  have g: "3 \<in> set get_available_grades" by code_simp
  have s: "''Science'' \<in> set (get_subjects_for_grade 3)" by code_simp
  have t: "''Life Cycles'' \<in> set (get_topics ''Science'' 3)" by code_simp
  note all = navigation_offers_only_local_content [where shuffle = rotate_shuffle and rng = 0]
  note inst = bspec [OF bspec [OF bspec [OF all g] s] t]
  show ?thesis
    by (intro conjI g s t inst [THEN conjunct1] inst [THEN conjunct2, THEN conjunct1]
        inst [THEN conjunct2, THEN conjunct2, THEN conjunct1]
        inst [THEN conjunct2, THEN conjunct2, THEN conjunct2])
qed

text \<open>Claim C10. \<open>answer_question_locally\<close> returns a non-empty string for every
  question and context, and the string does not depend on the context. When the remote
  attempt of \<open>answer_question\<close> fails, the feedback depends neither on the lesson context
  nor on the student's answer.\<close>

theorem local_feedback_depends_on_question_only:
  "answer_question_locally qn c1 = answer_question_locally qn c2 \<and>
   answer_question_locally qn c1 \<noteq> [] \<and>
   (remote_answer w qn c1 a1 = Inl e1 \<longrightarrow> remote_answer w qn c2 a2 = Inl e2 \<longrightarrow>
      answer_question w qn c1 a1 = answer_question w qn c2 a2)"
proof (intro conjI impI)
  show "answer_question_locally qn c1 = answer_question_locally qn c2"
    by (simp only: answer_question_locally_def)
  show "answer_question_locally qn c1 \<noteq> []"
    by (simp add: answer_question_locally_def Let_def)
  assume "remote_answer w qn c1 a1 = Inl e1" "remote_answer w qn c2 a2 = Inl e2"
  then show "answer_question w qn c1 a1 = answer_question w qn c2 a2"
    by (simp add: answer_question_def answer_question_locally_def)
qed

theorem local_feedback_depends_on_question_only_witness:
  "remote_answer offline_world ''What is energy?'' ''lesson one'' ''heat'' = Inl RuntimeError \<and>
   remote_answer offline_world ''What is energy?'' ''another lesson'' ''light'' = Inl RuntimeError \<and>
   answer_question offline_world ''What is energy?'' ''lesson one'' ''heat'' =
     answer_question offline_world ''What is energy?'' ''another lesson'' ''light''"
proof -
  have r1: "remote_answer offline_world ''What is energy?'' ''lesson one'' ''heat'' = Inl RuntimeError"
    by (simp add: remote_answer_def request_from_gemini_def offline_world_def)
  have r2: "remote_answer offline_world ''What is energy?'' ''another lesson'' ''light'' = Inl RuntimeError"
    by (simp add: remote_answer_def request_from_gemini_def offline_world_def)
  from local_feedback_depends_on_question_only
         [of "''What is energy?''" "''lesson one''" "''another lesson''" offline_world "''heat''"
             RuntimeError "''light''" RuntimeError]
  have "answer_question offline_world ''What is energy?'' ''lesson one'' ''heat'' =
     answer_question offline_world ''What is energy?'' ''another lesson'' ''light''"
    using r1 r2 by (elim conjE) (rule mp [OF mp], assumption+)
  with r1 r2 show ?thesis by (intro conjI)
qed

section \<open>The remote-first operations\<close>

lemma lesson_fallback:
  assumes "remote_lesson w subject grade topic = Inl e"
  shows "generate_lesson w subject grade topic = generate_local_lesson subject grade topic"
  using assms by (simp add: generate_lesson_def)

lemma exercises_fallback:
  assumes "remote_exercises w subject grade topic = Inl e"
  shows "generate_exercises w shuffle rng subject grade topic =
         generate_local_exercises shuffle rng subject grade topic"
  using assms by (simp add: generate_exercises_def)

lemma answer_fallback:
  assumes "remote_answer w qn ctx ans = Inl e"
  shows "answer_question w qn ctx ans = Inr (answer_question_locally qn ctx)"
  using assms by (simp add: answer_question_def)

lemma answer_total: "\<exists>r. answer_question w qn ctx ans = Inr r"
  by (cases "remote_answer w qn ctx ans") (simp_all add: answer_question_def)

lemma select_content_error: "select_content subject grade topic = Inl e \<Longrightarrow> e = KeyError"
  by (simp add: select_content_def Let_def split: option.splits)

lemma local_lesson_error:
  "generate_local_lesson subject grade topic = Inl e \<Longrightarrow>
   e = KeyError \<and> select_content subject grade topic = Inl KeyError"
  by (cases "select_content subject grade topic")
     (auto simp: generate_local_lesson_def dest: select_content_error)

lemma local_exercises_error:
  "generate_local_exercises shuffle rng subject grade topic = Inl e \<Longrightarrow>
   e = KeyError \<and> select_content subject grade topic = Inl KeyError"
  by (cases "select_content subject grade topic")
     (auto simp: generate_local_exercises_def Let_def split: prod.splits dest: select_content_error)

lemma lesson_error:
  assumes "generate_lesson w subject grade topic = Inl e"
  shows "e = KeyError \<and> select_content subject grade topic = Inl KeyError"
proof (cases "remote_lesson w subject grade topic")
  case (Inl x)
  with assms have "generate_local_lesson subject grade topic = Inl e"
    by (simp add: generate_lesson_def)
  then show ?thesis by (rule local_lesson_error)
next
  case (Inr r)
  with assms show ?thesis by (simp add: generate_lesson_def)
qed

lemma exercises_error:
  assumes "generate_exercises w shuffle rng subject grade topic = Inl e"
  shows "e = KeyError \<and> select_content subject grade topic = Inl KeyError"
proof (cases "remote_exercises w subject grade topic")
  case (Inl x)
  with assms have "generate_local_exercises shuffle rng subject grade topic = Inl e"
    by (simp add: generate_exercises_def)
  then show ?thesis by (rule local_exercises_error)
next
  case (Inr parsed)
  with assms show ?thesis by (simp add: generate_exercises_def)
qed

lemma mocked_failure_request:
  assumes "mocked_failure w prompt"
  shows "\<exists>e. request_from_gemini w prompt = Inl e"
  using assms
  by (auto simp: mocked_failure_def request_from_gemini_def extract_text_def
      split: http_reply.splits option.splits json.splits)

lemma request_fails_remote_lesson:
  "request_from_gemini w (lesson_prompt subject grade topic) = Inl e \<Longrightarrow>
   remote_lesson w subject grade topic = Inl e"
  by (simp add: remote_lesson_def)

lemma request_fails_remote_exercises:
  "request_from_gemini w (exercises_prompt subject grade topic) = Inl e \<Longrightarrow>
   remote_exercises w subject grade topic = Inl e"
  by (simp add: remote_exercises_def)

text \<open>Claim C1. When the endpoint answers with an error status, with a body that is not
  JSON, or with an empty candidate list, \<open>generate_lesson\<close> returns what
  \<open>generate_local_lesson\<close> returns for the same subject, grade and topic, and
  \<open>generate_exercises\<close> returns what \<open>generate_local_exercises\<close> returns for them in
  the same state of the random generator.\<close>

theorem remote_failure_returns_local_result:
  "(mocked_failure w (lesson_prompt subject grade topic) \<longrightarrow>
      generate_lesson w subject grade topic = generate_local_lesson subject grade topic) \<and>
   (mocked_failure w (exercises_prompt subject grade topic) \<longrightarrow>
      generate_exercises w shuffle rng subject grade topic =
      generate_local_exercises shuffle rng subject grade topic)"
proof (intro conjI impI)
  assume "mocked_failure w (lesson_prompt subject grade topic)"
  then obtain e where "request_from_gemini w (lesson_prompt subject grade topic) = Inl e"
    using mocked_failure_request by blast
  then show "generate_lesson w subject grade topic = generate_local_lesson subject grade topic"
    by (rule lesson_fallback [OF request_fails_remote_lesson])
next
  assume "mocked_failure w (exercises_prompt subject grade topic)"
  then obtain e where "request_from_gemini w (exercises_prompt subject grade topic) = Inl e"
    using mocked_failure_request by blast
  then show "generate_exercises w shuffle rng subject grade topic =
      generate_local_exercises shuffle rng subject grade topic"
    by (rule exercises_fallback [OF request_fails_remote_exercises])
qed


theorem remote_failure_returns_local_result_witness:
  "mocked_failure world_500 (lesson_prompt ''Science'' 3 ''Life Cycles'') \<and>
   generate_lesson world_500 ''Science'' 3 ''Life Cycles'' =
     generate_local_lesson ''Science'' 3 ''Life Cycles'' \<and>
   mocked_failure world_malformed (lesson_prompt ''Science'' 3 ''Life Cycles'') \<and>
   generate_lesson world_malformed ''Science'' 3 ''Life Cycles'' =
     generate_local_lesson ''Science'' 3 ''Life Cycles'' \<and>
   mocked_failure world_no_candidates (exercises_prompt ''Science'' 4 ''Energy'') \<and>
   generate_exercises world_no_candidates rotate_shuffle 1 ''Science'' 4 ''Energy'' =
     generate_local_exercises rotate_shuffle 1 ''Science'' 4 ''Energy''"
proof -
  have f1: "mocked_failure world_500 (lesson_prompt ''Science'' 3 ''Life Cycles'')"
    by (simp add: mocked_failure_def world_500_def)
  have f2: "mocked_failure world_malformed (lesson_prompt ''Science'' 3 ''Life Cycles'')"
    by (simp add: mocked_failure_def world_malformed_def)
  have f3: "mocked_failure world_no_candidates (exercises_prompt ''Science'' 4 ''Energy'')"
    by (simp add: mocked_failure_def world_no_candidates_def)
  show ?thesis
    by (intro conjI f1 f2 f3
        remote_failure_returns_local_result [THEN conjunct1, THEN mp, OF f1]
        remote_failure_returns_local_result [THEN conjunct1, THEN mp, OF f2]
        remote_failure_returns_local_result [THEN conjunct2, THEN mp, OF f3])
qed

lemma remote_causes:
  assumes "GEMINI_API_KEY w = None \<or> GEMINI_API_KEY w = Some [] \<or> post w prompt = Post_Raises \<or>
      (\<exists>n. post w prompt = Status_Raises n) \<or>
      (\<exists>b d. post w prompt = Body b \<and> json_loads w b = Some d \<and> extract_text d = Inl RuntimeError)"
  shows "\<exists>e. request_from_gemini w prompt = Inl e"
  using assms
  by (auto simp: request_from_gemini_def split: option.splits http_reply.splits)

text \<open>Claim C2. \<open>answer_question\<close> always returns. Whatever exception the remote attempt
  raises (no API key, a failed request, an error status, no candidate text among them),
  each operation returns the result of its local generator. The only error that
  \<open>generate_lesson\<close> and \<open>generate_exercises\<close> let through is the \<open>KeyError\<close> of
  \<open>_select_content\<close> for a triple that is not in the table.\<close>

theorem only_local_lookup_error_propagates:
  "(\<exists>r. answer_question w qn ctx ans = Inr r) \<and>
   (\<forall>e. remote_answer w qn ctx ans = Inl e \<longrightarrow>
        answer_question w qn ctx ans = Inr (answer_question_locally qn ctx)) \<and>
   (\<forall>e. remote_lesson w subject grade topic = Inl e \<longrightarrow>
        generate_lesson w subject grade topic = generate_local_lesson subject grade topic) \<and>
   (\<forall>e. remote_exercises w subject grade topic = Inl e \<longrightarrow>
        generate_exercises w shuffle rng subject grade topic =
        generate_local_exercises shuffle rng subject grade topic) \<and>
   (\<forall>e. generate_lesson w subject grade topic = Inl e \<longrightarrow>
        e = KeyError \<and> select_content subject grade topic = Inl KeyError) \<and>
   (\<forall>e. generate_exercises w shuffle rng subject grade topic = Inl e \<longrightarrow>
        e = KeyError \<and> select_content subject grade topic = Inl KeyError) \<and>
   (GEMINI_API_KEY w = None \<or> GEMINI_API_KEY w = Some [] \<or> post w prompt = Post_Raises \<or>
      (\<exists>n. post w prompt = Status_Raises n) \<or>
      (\<exists>b d. post w prompt = Body b \<and> json_loads w b = Some d \<and>
             extract_text d = Inl RuntimeError) \<longrightarrow>
    (\<exists>e. request_from_gemini w prompt = Inl e))"
  by (intro conjI allI impI answer_total answer_fallback lesson_fallback exercises_fallback
      lesson_error [THEN conjunct1] lesson_error [THEN conjunct2]
      exercises_error [THEN conjunct1] exercises_error [THEN conjunct2] remote_causes)

theorem only_local_lookup_error_propagates_witness:
  "remote_answer offline_world ''Solve 4 x 6'' ''lesson'' ''20'' = Inl RuntimeError \<and>
   answer_question offline_world ''Solve 4 x 6'' ''lesson'' ''20'' =
     Inr (answer_question_locally ''Solve 4 x 6'' ''lesson'') \<and>
   remote_lesson offline_world ''Art'' 1 ''Colour'' = Inl RuntimeError \<and>
   generate_lesson offline_world ''Art'' 1 ''Colour'' = generate_local_lesson ''Art'' 1 ''Colour'' \<and>
   remote_exercises offline_world ''Art'' 1 ''Colour'' = Inl RuntimeError \<and>
   generate_exercises offline_world rotate_shuffle 0 ''Art'' 1 ''Colour'' =
     generate_local_exercises rotate_shuffle 0 ''Art'' 1 ''Colour'' \<and>
   generate_lesson offline_world ''Art'' 1 ''Colour'' = Inl KeyError \<and>
   generate_exercises offline_world rotate_shuffle 0 ''Art'' 1 ''Colour'' = Inl KeyError \<and>
   select_content ''Art'' 1 ''Colour'' = Inl KeyError \<and>
   GEMINI_API_KEY offline_world = None \<and>
   (\<exists>e. request_from_gemini offline_world ''hello'' = Inl e)"
proof -
  note c = only_local_lookup_error_propagates [where w = offline_world and qn = "''Solve 4 x 6''" and ctx = "''lesson''"
      and ans = "''20''" and subject = "''Art''" and grade = 1 and topic = "''Colour''"
      and shuffle = rotate_shuffle and rng = 0 and prompt = "''hello''"]
  have ra: "remote_answer offline_world ''Solve 4 x 6'' ''lesson'' ''20'' = Inl RuntimeError"
    by (simp add: remote_answer_def request_from_gemini_def offline_world_def)
  have rl: "remote_lesson offline_world ''Art'' 1 ''Colour'' = Inl RuntimeError"
    by (simp add: remote_lesson_def request_from_gemini_def offline_world_def)
  have re: "remote_exercises offline_world ''Art'' 1 ''Colour'' = Inl RuntimeError"
    by (simp add: remote_exercises_def request_from_gemini_def offline_world_def)
  have gl: "generate_lesson offline_world ''Art'' 1 ''Colour'' = Inl KeyError"
    by code_simp
  have ge: "generate_exercises offline_world rotate_shuffle 0 ''Art'' 1 ''Colour'' = Inl KeyError"
    by code_simp
  have key: "GEMINI_API_KEY offline_world = None"
    by (simp add: offline_world_def)
  note c2 = c [THEN conjunct2]
  note c3 = c2 [THEN conjunct2]
  note c4 = c3 [THEN conjunct2]
  note c5 = c4 [THEN conjunct2]
  note c6 = c5 [THEN conjunct2]
  note c7 = c6 [THEN conjunct2]
  show ?thesis
    by (intro conjI ra rl re gl ge key
        c2 [THEN conjunct1, THEN spec, THEN mp, OF ra]
        c3 [THEN conjunct1, THEN spec, THEN mp, OF rl]
        c4 [THEN conjunct1, THEN spec, THEN mp, OF re]
        c5 [THEN conjunct1, THEN spec, THEN mp, OF gl, THEN conjunct2]
        c7 [THEN mp, OF disjI1, OF key])
qed

lemma first_text_well_formed:
  "those (map part_text ps) = Some ts \<Longrightarrow>
   first_text ps = Inr (map_option JString (find (\<lambda>t. t \<noteq> []) ts))"
proof (induction ps arbitrary: ts)
  case Nil
  then show ?case by simp
next
  case (Cons p ps)
  from Cons.prems obtain s rest where s: "part_text p = Some s"
    and rest: "those (map part_text ps) = Some rest" and ts: "ts = s # rest"
    by (auto split: option.splits)
  from s obtain kvs where p: "p = JObject kvs" and tx: "map_of kvs ''text'' = Some (JString s)"
    by (auto simp: part_text_def split: json.splits option.splits)
  show ?case
    using Cons.IH [OF rest] by (simp add: p tx ts)
qed

lemma find_append_option:
  "find P (xs @ ys) = (case find P xs of None \<Rightarrow> find P ys | Some x \<Rightarrow> Some x)"
  by (induction xs) auto

lemma scan_candidates_well_formed:
  "those (map candidate_texts cs) = Some tss \<Longrightarrow>
   scan_candidates cs = Inr (map_option JString (find (\<lambda>t. t \<noteq> []) (concat tss)))"
proof (induction cs arbitrary: tss)
  case Nil
  then show ?case by simp
next
  case (Cons c cs)
  from Cons.prems obtain ts rest where c: "candidate_texts c = Some ts"
    and rest: "those (map candidate_texts cs) = Some rest" and tss: "tss = ts # rest"
    by (auto split: option.splits)
  from c obtain kvs ckvs ps where shape: "c = JObject kvs"
    "map_of kvs ''content'' = Some (JObject ckvs)" "map_of ckvs ''parts'' = Some (JArray ps)"
    "those (map part_text ps) = Some ts"
    by (auto simp: candidate_texts_def split: json.splits option.splits)
  show ?case
    using Cons.IH [OF rest] first_text_well_formed [OF shape(4)]
    by (simp add: shape tss find_append_option split: option.splits)
qed

lemma extract_text_well_formed:
  assumes "first_nonempty_text d = Some txt"
  shows "extract_text d = Inr (JString txt)"
proof -
  from assms obtain kvs cs tss where shape: "d = JObject kvs"
    "map_of kvs ''candidates'' = Some (JArray cs)" "those (map candidate_texts cs) = Some tss"
    and found: "find (\<lambda>t. t \<noteq> []) (concat tss) = Some txt"
    by (auto simp: first_nonempty_text_def payload_texts_def split: json.splits option.splits)
  have iter: "py_iter (if truthy (JArray cs) then JArray cs else JArray []) = Inr cs"
    by simp
  show ?thesis
    unfolding extract_text_def
    using scan_candidates_well_formed [OF shape(3)] found
    by (simp add: shape(1,2) iter del: truthy.simps py_iter.simps)
qed

text \<open>Claim C6. With an API key configured, when the endpoint returns a well-formed
  candidate payload in which some text is not empty, the request yields the first text
  that is not empty, and \<open>generate_lesson\<close> and \<open>answer_question\<close> return it stripped of
  surrounding whitespace, whatever the local table holds for the request.\<close>

theorem remote_success_returns_first_text:
  assumes key: "GEMINI_API_KEY w = Some key" "key \<noteq> []"
    and reply: "post w prompt = Body b" "json_loads w b = Some d"
    and found: "first_nonempty_text d = Some txt"
  shows "request_from_gemini w prompt = Inr (JString txt) \<and>
         (prompt = lesson_prompt subject grade topic \<longrightarrow>
            generate_lesson w subject grade topic = Inr (strip txt)) \<and>
         (prompt = answer_prompt qn ctx ans \<longrightarrow>
            answer_question w qn ctx ans = Inr (strip txt))"
proof -
  have req: "request_from_gemini w prompt = Inr (JString txt)"
    using key reply extract_text_well_formed [OF found]
    by (simp add: request_from_gemini_def)
  have "generate_lesson w subject grade topic = Inr (strip txt)"
    if "prompt = lesson_prompt subject grade topic"
    using req that by (simp add: generate_lesson_def remote_lesson_def py_strip_def)
  moreover have "answer_question w qn ctx ans = Inr (strip txt)"
    if "prompt = answer_prompt qn ctx ans"
    using req that by (simp add: answer_question_def remote_answer_def py_strip_def)
  ultimately show ?thesis using req by simp
qed

theorem remote_success_returns_first_text_witness:
  "GEMINI_API_KEY world_candidates = Some ''secret'' \<and> ''secret'' \<noteq> [] \<and>
   post world_candidates (lesson_prompt ''Art'' 1 ''Colour'') = Body ''payload'' \<and>
   json_loads world_candidates ''payload'' = Some candidate_payload \<and>
   first_nonempty_text candidate_payload = Some (''  Mix two colours.'' @ [newline]) \<and>
   generate_lesson world_candidates ''Art'' 1 ''Colour'' = Inr ''Mix two colours.'' \<and>
   generate_local_lesson ''Art'' 1 ''Colour'' = Inl KeyError"
proof -
  have key: "GEMINI_API_KEY world_candidates = Some ''secret''"
    by (simp add: world_candidates_def)
  have ne: "''secret'' \<noteq> []" by simp
  have reply: "post world_candidates (lesson_prompt ''Art'' 1 ''Colour'') = Body ''payload''"
    by (simp add: world_candidates_def)
  have loads: "json_loads world_candidates ''payload'' = Some candidate_payload"
    by (simp add: world_candidates_def)
  have found: "first_nonempty_text candidate_payload = Some (''  Mix two colours.'' @ [newline])"
    by code_simp
  have stripped: "strip (''  Mix two colours.'' @ [newline]) = ''Mix two colours.''"
    by code_simp
  have "generate_lesson world_candidates ''Art'' 1 ''Colour'' =
        Inr (strip (''  Mix two colours.'' @ [newline]))"
    by (rule remote_success_returns_first_text [OF key ne reply loads found, THEN conjunct2, THEN conjunct1, THEN mp, OF refl])
  then have result: "generate_lesson world_candidates ''Art'' 1 ''Colour'' = Inr ''Mix two colours.''"
    by (simp only: stripped)
  have local: "generate_local_lesson ''Art'' 1 ''Colour'' = Inl KeyError"
    by code_simp
  show ?thesis by (intro conjI key ne reply loads found result local)
qed

lemma is_object_JObject: "is_object (JObject kvs)"
  by (simp add: is_object_def)

lemma parse_entries_objects:
  "list_all is_object es \<Longrightarrow> parse_entries es = Inr (kept_exercises es)"
proof (induction es)
  case Nil
  then show ?case by (simp add: kept_exercises_def)
next
  case (Cons e es)
  then obtain kvs where e: "e = JObject kvs"
    by (cases e) (simp_all add: is_object_def)
  from Cons have "parse_entries es = Inr (kept_exercises es)" by simp
  then show ?case
    by (simp add: e kept_exercises_def object_fields_def exercise_of_def entry_question_def Let_def)
qed

lemma parse_entries_other:
  "\<not> list_all is_object es \<Longrightarrow> parse_entries es = Inl ValueError"
proof (induction es)
  case Nil
  then show ?case by simp
next
  case (Cons e es)
  show ?case
  proof (cases e)
    case (JObject kvs)
    with Cons.prems have "\<not> list_all is_object es" by (simp add: is_object_JObject)
    then have "parse_entries es = Inl ValueError" by (rule Cons.IH)
    then show ?thesis by (simp add: JObject Let_def)
  qed simp_all
qed

lemma unusable_question:
  assumes "map_of kvs ''question'' = None \<or>
           (\<exists>q. map_of kvs ''question'' = Some (JString q) \<and> strip q = [])"
  shows "entry_question kvs = []"
proof -
  have "strip [] = []" by (simp add: strip_def)
  with assms show ?thesis
    by (auto simp: entry_question_def dict_get_def py_str_def)
qed

lemma kept_exercises_drop:
  assumes "entry_question kvs = []"
  shows "kept_exercises (xs @ JObject kvs # ys) = kept_exercises (xs @ ys)"
  using assms by (simp add: kept_exercises_def object_fields_def)

lemma default_hint:
  "map_of kvs ''hint'' = None \<Longrightarrow> hint (exercise_of kvs) = ''Use clues from the lesson.''"
  by (simp add: exercise_of_def dict_get_def py_str_def)

lemma remote_exercises_text:
  assumes "request_from_gemini w (exercises_prompt subject grade topic) = Inr (JString text)"
  shows "remote_exercises w subject grade topic =
     (case json_loads w text of
        None \<Rightarrow> Inl JSONDecodeError
      | Some (JArray es) \<Rightarrow>
          (case parse_entries es of
             Inl e \<Rightarrow> Inl e
           | Inr parsed \<Rightarrow> if parsed \<noteq> [] then Inr parsed else Inl ValueError)
      | Some _ \<Rightarrow> Inl ValueError)"
  using assms
  by (simp add: remote_exercises_def py_json_loads_def split: option.splits json.splits)


text \<open>Claim C3. Let the remote attempt of \<open>generate_exercises\<close> yield a text. If the text
  does not parse, parses to something that is not a list, or to a list with an entry that
  is not a dict, or if no entry keeps a question, the local exercises are returned.
  Otherwise the result is the list of the exercises kept, in order. An entry whose
  \<open>question\<close> is missing, or is a str that is empty once stripped, is dropped, and an entry
  without \<open>hint\<close> gets the default hint.\<close>

theorem remote_exercises_parsing:
  assumes req: "request_from_gemini w (exercises_prompt subject grade topic) = Inr (JString text)"
  shows
   "(json_loads w text = None \<longrightarrow>
       generate_exercises w shuffle rng subject grade topic =
       generate_local_exercises shuffle rng subject grade topic) \<and>
    (\<forall>v. json_loads w text = Some v \<and> (\<forall>es. v \<noteq> JArray es) \<longrightarrow>
       generate_exercises w shuffle rng subject grade topic =
       generate_local_exercises shuffle rng subject grade topic) \<and>
    (\<forall>es. json_loads w text = Some (JArray es) \<and> \<not> list_all is_object es \<longrightarrow>
       generate_exercises w shuffle rng subject grade topic =
       generate_local_exercises shuffle rng subject grade topic) \<and>
    (\<forall>es. json_loads w text = Some (JArray es) \<and> list_all is_object es \<longrightarrow>
       generate_exercises w shuffle rng subject grade topic =
       (if kept_exercises es \<noteq> [] then Inr (kept_exercises es, rng)
        else generate_local_exercises shuffle rng subject grade topic)) \<and>
    (\<forall>kvs xs ys.
       map_of kvs ''question'' = None \<or>
       (\<exists>q. map_of kvs ''question'' = Some (JString q) \<and> strip q = []) \<longrightarrow>
       kept_exercises (xs @ JObject kvs # ys) = kept_exercises (xs @ ys)) \<and>
    (\<forall>kvs. map_of kvs ''hint'' = None \<longrightarrow>
       hint (exercise_of kvs) = ''Use clues from the lesson.'')"
proof -
  note rem = remote_exercises_text [OF req]
  have a: "generate_exercises w shuffle rng subject grade topic =
       generate_local_exercises shuffle rng subject grade topic"
    if "json_loads w text = None"
    using that by (simp add: generate_exercises_def rem)
  have b: "generate_exercises w shuffle rng subject grade topic =
       generate_local_exercises shuffle rng subject grade topic"
    if "json_loads w text = Some v \<and> (\<forall>es. v \<noteq> JArray es)" for v
    using that by (cases v) (simp_all add: generate_exercises_def rem)
  have c: "generate_exercises w shuffle rng subject grade topic =
       generate_local_exercises shuffle rng subject grade topic"
    if "json_loads w text = Some (JArray es) \<and> \<not> list_all is_object es" for es
    using that parse_entries_other [of es] by (simp add: generate_exercises_def rem)
  have d: "generate_exercises w shuffle rng subject grade topic =
       (if kept_exercises es \<noteq> [] then Inr (kept_exercises es, rng)
        else generate_local_exercises shuffle rng subject grade topic)"
    if "json_loads w text = Some (JArray es) \<and> list_all is_object es" for es
    using that parse_entries_objects [of es] by (simp add: generate_exercises_def rem)
  have e: "kept_exercises (xs @ JObject kvs # ys) = kept_exercises (xs @ ys)"
    if "map_of kvs ''question'' = None \<or>
       (\<exists>q. map_of kvs ''question'' = Some (JString q) \<and> strip q = [])" for kvs xs ys
    by (rule kept_exercises_drop [OF unusable_question [OF that]])
  show ?thesis
    by (intro conjI allI impI;
        (erule a | erule b | erule c | erule d | erule e | erule default_hint))
qed

theorem remote_exercises_parsing_witness:
  "request_from_gemini (exercise_world None) (exercises_prompt ''Science'' 4 ''Energy'') =
     Inr (JString ''exercise list'') \<and>
   json_loads (exercise_world None) ''exercise list'' = None \<and>
   generate_exercises (exercise_world None) rotate_shuffle 0 ''Science'' 4 ''Energy'' =
     generate_local_exercises rotate_shuffle 0 ''Science'' 4 ''Energy'' \<and>
   generate_exercises (exercise_world (Some (JObject []))) rotate_shuffle 0 ''Science'' 4 ''Energy'' =
     generate_local_exercises rotate_shuffle 0 ''Science'' 4 ''Energy'' \<and>
   generate_exercises (exercise_world (Some (JArray [JInt 1]))) rotate_shuffle 0 ''Science'' 4 ''Energy'' =
     generate_local_exercises rotate_shuffle 0 ''Science'' 4 ''Energy'' \<and>
   generate_exercises (exercise_world (Some (JArray [JObject []]))) rotate_shuffle 0 ''Science'' 4 ''Energy'' =
     generate_local_exercises rotate_shuffle 0 ''Science'' 4 ''Energy'' \<and>
   list_all is_object exercise_entries \<and>
   generate_exercises (exercise_world (Some (JArray exercise_entries))) rotate_shuffle 0
       ''Science'' 4 ''Energy'' =
     Inr ([\<lparr>question = ''Solve 3 x 4.'', expected_answer = ''12'',
            hint = ''Use clues from the lesson.''\<rparr>], 0) \<and>
   kept_exercises ([] @ JObject [(''expected_answer'', JString ''12'')] # tl exercise_entries) =
     kept_exercises ([] @ tl exercise_entries) \<and>
   hint (exercise_of [(''question'', JString ''Q'')]) = ''Use clues from the lesson.''"
proof -
  have req: "request_from_gemini (exercise_world parsed) (exercises_prompt ''Science'' 4 ''Energy'') =
     Inr (JString ''exercise list'')" for parsed
    by (simp add: request_from_gemini_def exercise_world_def exercise_reply_def extract_text_def)
  note t = remote_exercises_parsing [OF req, where shuffle = rotate_shuffle and rng = 0]
  have l0: "json_loads (exercise_world None) ''exercise list'' = None"
    by (simp add: exercise_world_def)
  have l1: "json_loads (exercise_world (Some v)) ''exercise list'' = Some v" for v
    by (simp add: exercise_world_def)
  have a: "generate_exercises (exercise_world None) rotate_shuffle 0 ''Science'' 4 ''Energy'' =
     generate_local_exercises rotate_shuffle 0 ''Science'' 4 ''Energy''"
    by (rule t [THEN conjunct1, THEN mp, OF l0])
  have b: "generate_exercises (exercise_world (Some (JObject []))) rotate_shuffle 0 ''Science'' 4 ''Energy'' =
     generate_local_exercises rotate_shuffle 0 ''Science'' 4 ''Energy''"
    by (rule t [THEN conjunct2, THEN conjunct1, THEN spec [of _ "JObject []"], THEN mp])
       (simp add: l1)
  have c: "generate_exercises (exercise_world (Some (JArray [JInt 1]))) rotate_shuffle 0 ''Science'' 4 ''Energy'' =
     generate_local_exercises rotate_shuffle 0 ''Science'' 4 ''Energy''"
    by (rule t [THEN conjunct2, THEN conjunct2, THEN conjunct1, THEN spec [of _ "[JInt 1]"],
          THEN mp])
       (simp add: l1 is_object_def)
  note t4 = t [THEN conjunct2, THEN conjunct2, THEN conjunct2]
  have "generate_exercises (exercise_world (Some (JArray [JObject []]))) rotate_shuffle 0 ''Science'' 4 ''Energy'' =
       (if kept_exercises [JObject []] \<noteq> [] then Inr (kept_exercises [JObject []], 0)
        else generate_local_exercises rotate_shuffle 0 ''Science'' 4 ''Energy'')"
    by (rule t4 [THEN conjunct1, THEN spec [of _ "[JObject []]"], THEN mp])
       (simp add: l1 is_object_def)
  moreover have "kept_exercises [JObject []] = []" by code_simp
  ultimately have d0: "generate_exercises (exercise_world (Some (JArray [JObject []]))) rotate_shuffle 0 ''Science'' 4 ''Energy'' =
     generate_local_exercises rotate_shuffle 0 ''Science'' 4 ''Energy''"
    by simp
  have objs: "list_all is_object exercise_entries" by code_simp
  have "generate_exercises (exercise_world (Some (JArray exercise_entries))) rotate_shuffle 0
          ''Science'' 4 ''Energy'' =
       (if kept_exercises exercise_entries \<noteq> [] then Inr (kept_exercises exercise_entries, 0)
        else generate_local_exercises rotate_shuffle 0 ''Science'' 4 ''Energy'')"
    by (rule t4 [THEN conjunct1, THEN spec [of _ exercise_entries], THEN mp])
       (simp add: l1 objs)
  moreover have "kept_exercises exercise_entries =
      [\<lparr>question = ''Solve 3 x 4.'', expected_answer = ''12'',
         hint = ''Use clues from the lesson.''\<rparr>]"
    by code_simp
  ultimately have d1: "generate_exercises (exercise_world (Some (JArray exercise_entries)))
       rotate_shuffle 0 ''Science'' 4 ''Energy'' =
     Inr ([\<lparr>question = ''Solve 3 x 4.'', expected_answer = ''12'',
            hint = ''Use clues from the lesson.''\<rparr>], 0)"
    by simp
  have e: "kept_exercises ([] @ JObject [(''expected_answer'', JString ''12'')] # tl exercise_entries) =
     kept_exercises ([] @ tl exercise_entries)"
    by (rule t4 [THEN conjunct2, THEN conjunct1,
          THEN spec [of _ "[(''expected_answer'', JString ''12'')]"], THEN spec [of _ "[]"],
          THEN spec [of _ "tl exercise_entries"], THEN mp]) simp
  have f: "hint (exercise_of [(''question'', JString ''Q'')]) = ''Use clues from the lesson.''"
    by (rule t4 [THEN conjunct2, THEN conjunct2, THEN spec [of _ "[(''question'', JString ''Q'')]"],
          THEN mp]) simp
  show ?thesis by (intro conjI req l0 a b c d0 objs d1 e f)
qed

section \<open>The progress store\<close>













section \<open>Recording lessons and quizzes\<close>

lemma persist_progress_progress [simp]: "progress (persist_progress dump a) = progress a"
  by (simp add: persist_progress_def split: sum.splits)

lemma persist_progress_current [simp]:
  "current_subject (persist_progress dump a) = current_subject a"
  "current_grade (persist_progress dump a) = current_grade a"
  "current_topic (persist_progress dump a) = current_topic a"
  by (simp_all add: persist_progress_def split: sum.splits)

lemma open_lesson_lessons:
  assumes "open_lesson w dump subject grade topic a = Inr a'"
  shows "completed_lessons (progress a') =
     (let entry = \<lparr>entry_subject = subject, entry_grade = grade, entry_topic = topic\<rparr>
      in if entry \<in> set (completed_lessons (progress a)) then completed_lessons (progress a)
         else completed_lessons (progress a) @ [entry])"
    and "completed_tests (progress a') = completed_tests (progress a)"
    and "current_subject a' = Some subject" "current_grade a' = Some grade"
        "current_topic a' = Some topic"
  using assms
  by (auto simp: open_lesson_def Let_def split: sum.splits if_splits)

lemma open_lesson_distinct:
  assumes "open_lesson w dump subject grade topic a = Inr a'"
    and "distinct (completed_lessons (progress a))"
  shows "distinct (completed_lessons (progress a'))"
  using assms(2) by (simp add: open_lesson_lessons(1) [OF assms(1)] Let_def)

lemma record_test_lessons [simp]:
  "completed_lessons (progress (record_test dump score n a)) = completed_lessons (progress a)"
  by (simp add: record_test_def Let_def)

lemma record_test_tests:
  "completed_tests (progress (record_test dump score n a)) =
     (if lesson_chosen a
      then completed_tests (progress a) @
             [\<lparr>entry_subject = the (current_subject a), entry_grade = the (current_grade a),
               entry_topic = the (current_topic a), entry_score = score, entry_total = n\<rparr>]
      else completed_tests (progress a))"
  by (simp add: record_test_def Let_def)

lemma record_test_chosen [simp]: "lesson_chosen (record_test dump score n a) = lesson_chosen a"
  by (simp add: record_test_def Let_def lesson_chosen_def)

lemma record_test_current [simp]:
  "current_subject (record_test dump score n a) = current_subject a"
  "current_grade (record_test dump score n a) = current_grade a"
  "current_topic (record_test dump score n a) = current_topic a"
  by (simp_all add: record_test_def Let_def)

lemma handle_distinct:
  assumes "handle w dump a ev = Inr a'" and "distinct (completed_lessons (progress a))"
  shows "distinct (completed_lessons (progress a'))"
proof (cases ev)
  case (Lesson_Selected subject grade topic)
  with assms show ?thesis using open_lesson_distinct by auto
next
  case (Test_Completed score n)
  with assms show ?thesis by auto
qed

lemma run_distinct:
  "run w dump a evs = Inr a' \<Longrightarrow> distinct (completed_lessons (progress a)) \<Longrightarrow>
   distinct (completed_lessons (progress a'))"
proof (induction evs arbitrary: a)
  case Nil
  then show ?case by simp
next
  case (Cons ev evs)
  from Cons.prems(1) obtain a1 where step: "handle w dump a ev = Inr a1"
    and rest: "run w dump a1 evs = Inr a'"
    by (auto split: sum.splits)
  from handle_distinct [OF step Cons.prems(2)] have "distinct (completed_lessons (progress a1))" .
  then show ?case by (rule Cons.IH [OF rest])
qed

lemma distinct_count_one: "distinct xs \<Longrightarrow> x \<in> set xs \<Longrightarrow> count_list xs x = 1"
  by (induction xs) auto

lemma open_twice:
  assumes "run w dump a [Lesson_Selected subject grade topic, Lesson_Selected subject grade topic]
             = Inr a2"
    and "distinct (completed_lessons (progress a))"
  shows "count_list (completed_lessons (progress a2))
           \<lparr>entry_subject = subject, entry_grade = grade, entry_topic = topic\<rparr> = 1"
proof -
  define entry where "entry = \<lparr>entry_subject = subject, entry_grade = grade, entry_topic = topic\<rparr>"
  from assms(1) obtain a1 where s1: "open_lesson w dump subject grade topic a = Inr a1"
    and s2: "open_lesson w dump subject grade topic a1 = Inr a2"
    by (auto split: sum.splits)
  have in1: "entry \<in> set (completed_lessons (progress a1))"
    by (simp add: open_lesson_lessons(1) [OF s1] Let_def entry_def)
  have d1: "distinct (completed_lessons (progress a1))"
    by (rule open_lesson_distinct [OF s1 assms(2)])
  have "completed_lessons (progress a2) = completed_lessons (progress a1)"
    using in1 by (simp add: open_lesson_lessons(1) [OF s2] Let_def entry_def)
  then show ?thesis
    using distinct_count_one [OF d1 in1] by (simp add: entry_def)
qed

lemma two_attempts:
  assumes "lesson_chosen a"
  shows "\<exists>a2. run w dump a [Test_Completed s1 n1, Test_Completed s2 n2] = Inr a2 \<and>
     completed_tests (progress a2) =
       completed_tests (progress a) @
         [\<lparr>entry_subject = the (current_subject a), entry_grade = the (current_grade a),
           entry_topic = the (current_topic a), entry_score = s1, entry_total = n1\<rparr>,
          \<lparr>entry_subject = the (current_subject a), entry_grade = the (current_grade a),
           entry_topic = the (current_topic a), entry_score = s2, entry_total = n2\<rparr>]"
  using assms by (simp add: record_test_tests)

lemma run_tests_count:
  "run w dump a evs = Inr a' \<Longrightarrow> ui_session (lesson_chosen a) evs \<Longrightarrow>
   length (completed_tests (progress a')) = length (completed_tests (progress a)) + quiz_count evs"
proof (induction evs arbitrary: a)
  case Nil
  then show ?case by simp
next
  case (Cons ev evs)
  show ?case
  proof (cases ev)
    case (Lesson_Selected subject grade topic)
    with Cons.prems obtain a1 where step: "open_lesson w dump subject grade topic a = Inr a1"
      and rest: "run w dump a1 evs = Inr a'"
      by (auto split: sum.splits)
    from Cons.prems(2) Lesson_Selected
    have args: "subject \<noteq> []" "grade \<noteq> 0" "topic \<noteq> []" and later: "ui_session True evs"
      by simp_all
    have "lesson_chosen a1"
      using args by (simp add: lesson_chosen_def open_lesson_lessons(3-5) [OF step])
    with later have "ui_session (lesson_chosen a1) evs" by simp
    from Cons.IH [OF rest this] show ?thesis
      by (simp add: Lesson_Selected open_lesson_lessons(2) [OF step])
  next
    case (Test_Completed score n)
    with Cons.prems(1) have rest: "run w dump (record_test dump score n a) evs = Inr a'"
      by simp
    from Cons.prems(2) have both: "lesson_chosen a \<and> ui_session (lesson_chosen a) evs"
      unfolding Test_Completed ui_session.simps .
    from both have chosen: "lesson_chosen a" and later: "ui_session (lesson_chosen a) evs"
      by (rule conjunct1, rule conjunct2)
    from later have "ui_session (lesson_chosen (record_test dump score n a)) evs" by simp
    from Cons.IH [OF rest this] chosen show ?thesis
      by (simp add: Test_Completed record_test_tests)
  qed
qed

lemma open_lesson_returns:
  assumes "generate_lesson w subject grade topic = Inr txt"
  shows "\<exists>a'. open_lesson w dump subject grade topic a = Inr a'"
  using assms by (simp add: open_lesson_def Let_def)

text \<open>Claim C4. If no lesson occurs twice in \<open>completed_lessons\<close>, none does after any
  sequence of \<open>lesson_selected\<close> and \<open>test_completed\<close> signals, and after the same lesson
  has been opened twice it occurs exactly once. A quiz completed while a lesson is chosen
  appends its entry to \<open>completed_tests\<close>, so that two attempts with the same score leave
  two equal entries, and a session of the pages adds as many entries as quizzes were
  completed.\<close>

theorem lessons_once_tests_every_time:
  "(distinct (completed_lessons (progress a)) \<longrightarrow> run w dump a evs = Inr a' \<longrightarrow>
      distinct (completed_lessons (progress a'))) \<and>
   (distinct (completed_lessons (progress a)) \<longrightarrow>
    run w dump a [Lesson_Selected subject grade topic, Lesson_Selected subject grade topic] = Inr a2 \<longrightarrow>
      count_list (completed_lessons (progress a2))
        \<lparr>entry_subject = subject, entry_grade = grade, entry_topic = topic\<rparr> = 1) \<and>
   (lesson_chosen a \<longrightarrow>
      completed_tests (progress (record_test dump score n a)) =
        completed_tests (progress a) @
          [\<lparr>entry_subject = the (current_subject a), entry_grade = the (current_grade a),
            entry_topic = the (current_topic a), entry_score = score, entry_total = n\<rparr>]) \<and>
   (lesson_chosen a \<longrightarrow>
      (\<exists>a3. run w dump a [Test_Completed score n, Test_Completed score n] = Inr a3 \<and>
         completed_tests (progress a3) =
           completed_tests (progress a) @
             [\<lparr>entry_subject = the (current_subject a), entry_grade = the (current_grade a),
               entry_topic = the (current_topic a), entry_score = score, entry_total = n\<rparr>,
              \<lparr>entry_subject = the (current_subject a), entry_grade = the (current_grade a),
               entry_topic = the (current_topic a), entry_score = score, entry_total = n\<rparr>])) \<and>
   (ui_session (lesson_chosen a) evs \<longrightarrow> run w dump a evs = Inr a' \<longrightarrow>
      length (completed_tests (progress a')) =
        length (completed_tests (progress a)) + quiz_count evs)"
proof (intro conjI impI)
  assume "distinct (completed_lessons (progress a))" "run w dump a evs = Inr a'"
  then show "distinct (completed_lessons (progress a'))" using run_distinct by blast
next
  assume "distinct (completed_lessons (progress a))"
    "run w dump a [Lesson_Selected subject grade topic, Lesson_Selected subject grade topic] = Inr a2"
  then show "count_list (completed_lessons (progress a2))
        \<lparr>entry_subject = subject, entry_grade = grade, entry_topic = topic\<rparr> = 1"
    using open_twice by blast
next
  assume "lesson_chosen a"
  then show "completed_tests (progress (record_test dump score n a)) =
        completed_tests (progress a) @
          [\<lparr>entry_subject = the (current_subject a), entry_grade = the (current_grade a),
            entry_topic = the (current_topic a), entry_score = score, entry_total = n\<rparr>]"
    by (simp add: record_test_tests)
next
  assume "lesson_chosen a"
  then show "\<exists>a3. run w dump a [Test_Completed score n, Test_Completed score n] = Inr a3 \<and>
         completed_tests (progress a3) =
           completed_tests (progress a) @
             [\<lparr>entry_subject = the (current_subject a), entry_grade = the (current_grade a),
               entry_topic = the (current_topic a), entry_score = score, entry_total = n\<rparr>,
              \<lparr>entry_subject = the (current_subject a), entry_grade = the (current_grade a),
               entry_topic = the (current_topic a), entry_score = score, entry_total = n\<rparr>]"
    by (rule two_attempts)
next
  assume "ui_session (lesson_chosen a) evs" "run w dump a evs = Inr a'"
  then show "length (completed_tests (progress a')) =
        length (completed_tests (progress a)) + quiz_count evs"
    by (rule run_tests_count [rotated])
qed

theorem lessons_once_tests_every_time_witness:
  "distinct (completed_lessons (progress initial_app)) \<and>
   ui_session (lesson_chosen initial_app) session \<and>
   (\<exists>a'. run offline_world demo_dump initial_app session = Inr a' \<and>
      distinct (completed_lessons (progress a')) \<and>
      length (completed_tests (progress a')) =
        length (completed_tests (progress initial_app)) + quiz_count session \<and>
      completed_lessons (progress a') =
        [\<lparr>entry_subject = ''Science'', entry_grade = 3, entry_topic = ''Life Cycles''\<rparr>] \<and>
      completed_tests (progress a') =
        [\<lparr>entry_subject = ''Science'', entry_grade = 3, entry_topic = ''Life Cycles'',
          entry_score = 2, entry_total = 3\<rparr>,
         \<lparr>entry_subject = ''Science'', entry_grade = 3, entry_topic = ''Life Cycles'',
          entry_score = 2, entry_total = 3\<rparr>]) \<and>
   (\<exists>a2. run offline_world demo_dump initial_app
           [Lesson_Selected ''Science'' 3 ''Life Cycles'',
            Lesson_Selected ''Science'' 3 ''Life Cycles''] = Inr a2 \<and>
      count_list (completed_lessons (progress a2))
        \<lparr>entry_subject = ''Science'', entry_grade = 3, entry_topic = ''Life Cycles''\<rparr> = 1) \<and>
   lesson_chosen chosen_app \<and>
   completed_tests (progress (record_test demo_dump 2 3 chosen_app)) =
     [\<lparr>entry_subject = ''Science'', entry_grade = 3, entry_topic = ''Life Cycles'',
       entry_score = 2, entry_total = 3\<rparr>] \<and>
   (\<exists>a3. run offline_world demo_dump chosen_app [Test_Completed 2 3, Test_Completed 2 3] = Inr a3 \<and>
      completed_tests (progress a3) =
        [\<lparr>entry_subject = ''Science'', entry_grade = 3, entry_topic = ''Life Cycles'',
          entry_score = 2, entry_total = 3\<rparr>,
         \<lparr>entry_subject = ''Science'', entry_grade = 3, entry_topic = ''Life Cycles'',
          entry_score = 2, entry_total = 3\<rparr>])"
proof -
  define E where "E = \<lparr>entry_subject = ''Science'', entry_grade = 3, entry_topic = ''Life Cycles''\<rparr>"
  define T where "T = \<lparr>entry_subject = ''Science'', entry_grade = 3, entry_topic = ''Life Cycles'',
          entry_score = 2, entry_total = 3\<rparr>"
  note inst = lessons_once_tests_every_time [where w = offline_world and dump = demo_dump]
  have d0: "distinct (completed_lessons (progress initial_app))"
    by (simp add: initial_app_def)
  have "remote_lesson offline_world ''Science'' 3 ''Life Cycles'' = Inl RuntimeError"
    by (simp add: remote_lesson_def request_from_gemini_def offline_world_def)
  then have fb: "generate_lesson offline_world ''Science'' 3 ''Life Cycles'' =
             generate_local_lesson ''Science'' 3 ''Life Cycles''"
    by (rule lesson_fallback)
  have "(''Science'', 3, ''Life Cycles'') \<in> set table_triples" by code_simp
  then obtain c where "select_content ''Science'' 3 ''Life Cycles'' = Inr c"
    using present_select by blast
  then obtain body where "generate_local_lesson ''Science'' 3 ''Life Cycles'' = Inr body"
    using lesson_text by blast
  with fb have gl: "generate_lesson offline_world ''Science'' 3 ''Life Cycles'' = Inr body"
    by simp
  obtain a1 where s1: "open_lesson offline_world demo_dump ''Science'' 3 ''Life Cycles'' initial_app = Inr a1"
    using open_lesson_returns [OF gl] by blast
  obtain a2 where s2: "open_lesson offline_world demo_dump ''Science'' 3 ''Life Cycles'' a1 = Inr a2"
    using open_lesson_returns [OF gl] by blast
  have l1: "completed_lessons (progress a1) = [E]"
    by (simp add: open_lesson_lessons(1) [OF s1] initial_app_def E_def)
  have l2: "completed_lessons (progress a2) = [E]"
    by (simp add: open_lesson_lessons(1) [OF s2] l1 E_def)
  have t2: "completed_tests (progress a2) = []"
    by (simp add: open_lesson_lessons(2) [OF s2] open_lesson_lessons(2) [OF s1] initial_app_def)
  have ch2: "lesson_chosen a2"
    by (simp add: lesson_chosen_def open_lesson_lessons(3-5) [OF s2])
  define a4 where "a4 = record_test demo_dump 2 3 (record_test demo_dump 2 3 a2)"
  have run4: "run offline_world demo_dump initial_app session = Inr a4"
    by (simp add: session_def s1 s2 a4_def)
  have run2: "run offline_world demo_dump initial_app
           [Lesson_Selected ''Science'' 3 ''Life Cycles'',
            Lesson_Selected ''Science'' 3 ''Life Cycles''] = Inr a2"
    by (simp add: s1 s2)
  have l4: "completed_lessons (progress a4) = [E]"
    by (simp add: a4_def l2)
  have t4: "completed_tests (progress a4) = [T, T]"
    using ch2 by (simp add: a4_def record_test_tests t2 T_def open_lesson_lessons(3-5) [OF s2])
  have d4: "distinct (completed_lessons (progress a4))"
    by (rule inst [THEN conjunct1, THEN mp, THEN mp, OF d0 run4])
  have ui: "ui_session (lesson_chosen initial_app) session"
    by (simp add: session_def)
  have n4: "length (completed_tests (progress a4)) =
        length (completed_tests (progress initial_app)) + quiz_count session"
    by (rule inst [THEN conjunct2, THEN conjunct2, THEN conjunct2, THEN conjunct2,
          THEN mp, THEN mp, OF ui run4])
  have c2: "count_list (completed_lessons (progress a2)) E = 1"
    unfolding E_def by (rule inst [THEN conjunct2, THEN conjunct1, THEN mp, THEN mp, OF d0 run2])
  have ch: "lesson_chosen chosen_app"
    by (simp add: chosen_app_def initial_app_def lesson_chosen_def)
  have r1: "completed_tests (progress (record_test demo_dump 2 3 chosen_app)) = [T]"
    using inst [where a = chosen_app and score = 2 and n = 3,
        THEN conjunct2, THEN conjunct2, THEN conjunct1, THEN mp, OF ch]
    by (simp add: chosen_app_def initial_app_def T_def)
  have r2: "\<exists>a3. run offline_world demo_dump chosen_app [Test_Completed 2 3, Test_Completed 2 3] = Inr a3 \<and>
      completed_tests (progress a3) = [T, T]"
    using inst [where a = chosen_app and score = 2 and n = 3,
        THEN conjunct2, THEN conjunct2, THEN conjunct2, THEN conjunct1, THEN mp, OF ch]
    by (simp add: chosen_app_def initial_app_def T_def)
  have first: "\<exists>a'. run offline_world demo_dump initial_app session = Inr a' \<and>
      distinct (completed_lessons (progress a')) \<and>
      length (completed_tests (progress a')) =
        length (completed_tests (progress initial_app)) + quiz_count session \<and>
      completed_lessons (progress a') = [E] \<and>
      completed_tests (progress a') = [T, T]"
    using run4 d4 n4 l4 t4 by (intro exI [of _ a4] conjI)
  have second: "\<exists>a2. run offline_world demo_dump initial_app
           [Lesson_Selected ''Science'' 3 ''Life Cycles'',
            Lesson_Selected ''Science'' 3 ''Life Cycles''] = Inr a2 \<and>
      count_list (completed_lessons (progress a2)) E = 1"
    using run2 c2 by (intro exI [of _ a2] conjI)
  show ?thesis
    using d0 ui first second ch r1 r2 unfolding E_def T_def by (intro conjI)
qed

end
